theory Spec2Isabelle
  imports Complex_Main
begin

section \<open>Dates and times\<close>

text \<open>
  Python's naive \<^verbatim>\<open>datetime\<close> has microsecond resolution. A \<open>datetime\<close> is the
  number of microseconds since the epoch, a \<open>date\<close> the number of days since the epoch and
  a \<open>time\<close> the number of microseconds since midnight. The calendar's range limits
  (years 1 to 9999) and time zones are not modelled.
\<close>

type_synonym datetime = int
type_synonym date = int
type_synonym time = int

definition timedelta_minutes :: "int \<Rightarrow> int" where
  "timedelta_minutes m = m * 60000000"

definition time_hm :: "int \<Rightarrow> int \<Rightarrow> time" where
  "time_hm h m = timedelta_minutes (h * 60 + m)"

definition datetime_combine :: "date \<Rightarrow> time \<Rightarrow> datetime" where
  "datetime_combine d t = d * 86400000000 + t"

text \<open>SQL's \<^verbatim>\<open>func.date(column)\<close>: the calendar day a timestamp falls on.\<close>

definition func_date :: "datetime \<Rightarrow> date" where
  "func_date dt = dt div 86400000000"


section \<open>The relational store (app/core/database.py)\<close>

datatype AppointmentStatus = CONFIRMED | CANCELLED | COMPLETED | NO_SHOW | RESCHEDULED

record Customer =
  cust_id :: string
  cust_name :: string
  cust_is_active :: bool

record Staff =
  stf_id :: string
  stf_name :: string
  stf_is_active :: bool

record Service =
  svc_id :: string
  svc_name :: string
  svc_duration :: int
  svc_is_active :: bool

record Appointment =
  appt_id :: string
  customer_id :: string
  staff_id :: string
  service_id :: string
  start_time :: datetime
  end_time :: datetime
  status :: AppointmentStatus
  appt_notes :: "string option"
  cancellation_reason :: "string option"
  updated_at :: datetime

text \<open>Each table is the list of its rows, in the order a plain \<^verbatim>\<open>select\<close> returns them.\<close>

record database =
  customers :: "Customer list"
  staff :: "Staff list"
  services :: "Service list"
  appointments :: "Appointment list"

text \<open>\<^verbatim>\<open>session.get(Model, key)\<close>: the row with that primary key, or \<^verbatim>\<open>None\<close>.\<close>

definition get_customer :: "database \<Rightarrow> string \<Rightarrow> Customer option" where
  "get_customer db k = find (\<lambda>c. cust_id c = k) (customers db)"

definition get_service :: "database \<Rightarrow> string \<Rightarrow> Service option" where
  "get_service db k = find (\<lambda>s. svc_id s = k) (services db)"

definition get_appointment :: "database \<Rightarrow> string \<Rightarrow> Appointment option" where
  "get_appointment db k = find (\<lambda>a. appt_id a = k) (appointments db)"

text \<open>
  The errors the modelled code raises. \<open>ValueError\<close> carries the message of the
  \<^verbatim>\<open>raise ValueError(...)\<close> statement; \<open>MultipleResultsFound\<close> is what
  \<^verbatim>\<open>scalar_one_or_none()\<close> raises on more than one row; \<open>ValidationError\<close> is
  pydantic's, raised by \<^verbatim>\<open>model_validate\<close>; \<open>IntegrityError\<close> is a primary or foreign
  key violation at commit; \<open>AttributeError\<close> is an attribute read on \<^verbatim>\<open>None\<close>;
  \<open>GraphError\<close> is any failure of a query sent to the graph store.
\<close>

datatype error =
    ValueError string
  | MultipleResultsFound
  | ValidationError string
  | IntegrityError
  | AttributeError
  | GraphError

fun scalar_one_or_none :: "'a list \<Rightarrow> error + 'a option" where
  "scalar_one_or_none [] = Inr None"
| "scalar_one_or_none [x] = Inr (Some x)"
| "scalar_one_or_none (x # y # zs) = Inl MultipleResultsFound"

text \<open>Python's truthiness of an \<^verbatim>\<open>Optional[str]\<close>: \<^verbatim>\<open>None\<close> and the empty string are false.\<close>

fun truthy :: "string option \<Rightarrow> bool" where
  "truthy None = False"
| "truthy (Some s) = (s \<noteq> [])"


section \<open>Slot generation and availability (app/services/appointment_service.py)\<close>

record TimeSlot =
  slot_start_time :: datetime
  slot_end_time :: datetime
  slot_available :: bool
  slot_staff_id :: "string option"

record AvailabilityResponse =
  resp_date :: date
  resp_service_id :: string
  available_slots :: "TimeSlot list"
  staff_availability :: "string \<rightharpoonup> TimeSlot list"

text \<open>
  The \<^verbatim>\<open>while\<close> loop of \<^verbatim>\<open>_generate_time_slots\<close>; the slots appended so far are
  the front of the result.
\<close>

function generate_loop :: "datetime \<Rightarrow> datetime \<Rightarrow> int \<Rightarrow> TimeSlot list" where
  "generate_loop current_datetime end_datetime duration =
     (if current_datetime + timedelta_minutes duration \<le> end_datetime
      then \<lparr>slot_start_time = current_datetime,
            slot_end_time = current_datetime + timedelta_minutes duration,
            slot_available = True,
            slot_staff_id = None\<rparr>
           # generate_loop (current_datetime + timedelta_minutes 30) end_datetime duration
      else [])"
  by pat_completeness auto
termination
  by (relation "measure (\<lambda>(c, e, d). nat (e - (c + timedelta_minutes d) + 1))")
     (auto simp: timedelta_minutes_def)

declare generate_loop.simps [simp del]

definition generate_time_slots :: "date \<Rightarrow> time \<Rightarrow> time \<Rightarrow> int \<Rightarrow> TimeSlot list" where
  "generate_time_slots d start_t end_t duration =
     generate_loop (datetime_combine d start_t) (datetime_combine d end_t) duration"

text \<open>The inner loop of \<^verbatim>\<open>_filter_available_slots\<close>, with its \<^verbatim>\<open>break\<close>.\<close>

fun is_available :: "TimeSlot \<Rightarrow> Appointment list \<Rightarrow> bool" where
  "is_available slot [] = True"
| "is_available slot (appointment # rest) =
     (if slot_start_time slot < end_time appointment \<and>
         slot_end_time slot > start_time appointment
      then False
      else is_available slot rest)"

fun filter_available_slots :: "TimeSlot list \<Rightarrow> Appointment list \<Rightarrow> TimeSlot list" where
  "filter_available_slots [] appts = []"
| "filter_available_slots (slot # slots) appts =
     (if is_available slot appts
      then slot # filter_available_slots slots appts
      else filter_available_slots slots appts)"

text \<open>
  The query of \<^verbatim>\<open>check_availability\<close>: appointments that start on the date, are
  confirmed or rescheduled and are for the requested service; restricted to one staff
  member when \<^verbatim>\<open>staff_id\<close> is truthy.
\<close>

definition existing_appointments :: "database \<Rightarrow> date \<Rightarrow> string \<Rightarrow> string option \<Rightarrow> Appointment list" where
  "existing_appointments db d sid stf =
     filter (\<lambda>a. func_date (start_time a) = d \<and>
                 (status a = CONFIRMED \<or> status a = RESCHEDULED) \<and>
                 service_id a = sid \<and>
                 (if truthy stf then Some (staff_id a) = stf else True))
       (appointments db)"

definition get_all_staff :: "database \<Rightarrow> Staff list" where
  "get_all_staff db = filter stf_is_active (staff db)"

text \<open>\<^verbatim>\<open>duration or service.duration\<close>: \<^verbatim>\<open>None\<close> and \<open>0\<close> fall back to the service's.\<close>

fun duration_or :: "int option \<Rightarrow> int \<Rightarrow> int" where
  "duration_or None d = d"
| "duration_or (Some n) d = (if n = 0 then d else n)"

fun staff_slots :: "TimeSlot list \<Rightarrow> Appointment list \<Rightarrow> Staff list \<Rightarrow>
    (string \<rightharpoonup> TimeSlot list) \<Rightarrow> (string \<rightharpoonup> TimeSlot list)" where
  "staff_slots slots existing [] m = m"
| "staff_slots slots existing (s # rest) m =
     staff_slots slots existing rest
       (m(stf_id s \<mapsto>
          filter_available_slots slots (filter (\<lambda>apt. staff_id apt = stf_id s) existing)))"

definition check_availability ::
    "database \<Rightarrow> date \<Rightarrow> string \<Rightarrow> string option \<Rightarrow> int option \<Rightarrow> error + AvailabilityResponse" where
  "check_availability db d sid stf duration =
     (case get_service db sid of
        None \<Rightarrow> Inl (ValueError ''Service not found'')
      | Some service \<Rightarrow>
          let dur = duration_or duration (svc_duration service);
              slots = generate_time_slots d (time_hm 9 0) (time_hm 17 0) dur;
              existing = existing_appointments db d sid stf
          in Inr \<lparr>resp_date = d,
                  resp_service_id = sid,
                  available_slots = filter_available_slots slots existing,
                  staff_availability =
                    (if \<not> truthy stf
                     then staff_slots slots existing (get_all_staff db) Map.empty
                     else Map.empty)\<rparr>)"


section \<open>The graph store (app/core/graph_db.py)\<close>

text \<open>
  The property graph the Cypher queries run on. A node is identified by its \<open>id\<close>
  property (the uniqueness constraints of \<^verbatim>\<open>create_schema\<close>); a relationship names
  the ids of its two ends. A property that a query guards with \<^verbatim>\<open>COALESCE\<close> may be
  missing (\<open>None\<close>); every Service node is taken to carry its name, description, price
  and duration, and every Staff node its name. Cypher numbers are reals here: the
  rounding of IEEE doubles is not modelled. \<open>g_online\<close> says whether a query sent to
  the store is executed at all; when it is not, the driver raises.
\<close>

record service_node =
  sn_id :: string
  sn_name :: string
  sn_description :: string
  sn_price :: real
  sn_duration :: int

record staff_node =
  st_id :: string
  st_name :: string

record appointment_node =
  an_id :: string
  an_start_time :: datetime
  an_end_time :: datetime
  an_status :: AppointmentStatus
  an_satisfaction :: "real option"

record prefers_edge =
  pe_customer :: string
  pe_service :: string
  pe_strength :: "real option"
  pe_count :: "int option"

record worked_with_edge =
  ww_customer :: string
  ww_staff :: string
  ww_satisfaction :: "real option"
  ww_count :: "int option"

record specializes_edge =
  sp_staff :: string
  sp_service :: string
  sp_expertise_level :: "real option"

record graph =
  g_online :: bool
  g_customers :: "string list"
  g_staff :: "staff_node list"
  g_services :: "service_node list"
  g_appointments :: "appointment_node list"
  g_prefers :: "prefers_edge list"
  g_worked_with :: "worked_with_edge list"
  g_specializes :: "specializes_edge list"
  g_complements :: "(string \<times> string) list"
  g_booked :: "(string \<times> string) list"
  g_assigned_to :: "(string \<times> string) list"
  g_for_service :: "(string \<times> string) list"

text \<open>\<^verbatim>\<open>COALESCE(x, d)\<close>.\<close>

fun coalesce :: "'a option \<Rightarrow> 'a \<Rightarrow> 'a" where
  "coalesce None d = d"
| "coalesce (Some x) d = x"

text \<open>The pattern \<^verbatim>\<open>(c)-[:PREFERS]->(s)\<close> between two given nodes.\<close>

definition has_prefers :: "graph \<Rightarrow> string \<Rightarrow> string \<Rightarrow> bool" where
  "has_prefers g c s = list_ex (\<lambda>e. pe_customer e = c \<and> pe_service e = s) (g_prefers g)"

definition has_service_node :: "graph \<Rightarrow> string \<Rightarrow> bool" where
  "has_service_node g s = list_ex (\<lambda>n. sn_id n = s) (g_services g)"

definition has_staff_node :: "graph \<Rightarrow> string \<Rightarrow> bool" where
  "has_staff_node g s = list_ex (\<lambda>n. st_id n = s) (g_staff g)"

text \<open>
  \<^verbatim>\<open>update_customer_preferences\<close>: both \<^verbatim>\<open>MATCH\<close>es must find their node, else the
  query has no row and changes nothing. \<^verbatim>\<open>MERGE\<close> binds every existing PREFERS
  relationship between the two nodes, or creates one without properties; \<^verbatim>\<open>SET\<close>
  then adds the satisfaction to the strength and one to the count.
\<close>

definition set_preference :: "real \<Rightarrow> prefers_edge \<Rightarrow> prefers_edge" where
  "set_preference satisfaction r =
     r\<lparr>pe_strength := Some (coalesce (pe_strength r) 0 + satisfaction),
       pe_count := Some (coalesce (pe_count r) 0 + 1)\<rparr>"

definition update_customer_preferences :: "graph \<Rightarrow> string \<Rightarrow> string \<Rightarrow> real \<Rightarrow> error + graph" where
  "update_customer_preferences g c s satisfaction =
     (if \<not> g_online g then Inl GraphError
      else if \<not> (c \<in> set (g_customers g) \<and> has_service_node g s) then Inr g
      else if has_prefers g c s
      then Inr (g\<lparr>g_prefers :=
                  map (\<lambda>r. if pe_customer r = c \<and> pe_service r = s
                            then set_preference satisfaction r else r) (g_prefers g)\<rparr>)
      else Inr (g\<lparr>g_prefers := g_prefers g @
                  [set_preference satisfaction
                     \<lparr>pe_customer = c, pe_service = s, pe_strength = None, pe_count = None\<rparr>]\<rparr>))"

text \<open>
  \<^verbatim>\<open>update_appointment_feedback\<close>: needs the Appointment, Customer and Staff nodes;
  merges the WORKED_WITH relationship, halves the sum of the old satisfaction and the
  new one, and stores the satisfaction on the Appointment node.
\<close>

definition set_worked_with :: "real \<Rightarrow> worked_with_edge \<Rightarrow> worked_with_edge" where
  "set_worked_with satisfaction r =
     r\<lparr>ww_satisfaction := Some ((coalesce (ww_satisfaction r) 0 + satisfaction) / 2),
       ww_count := Some (coalesce (ww_count r) 0 + 1)\<rparr>"

definition update_appointment_feedback ::
    "graph \<Rightarrow> string \<Rightarrow> string \<Rightarrow> string \<Rightarrow> real \<Rightarrow> error + graph" where
  "update_appointment_feedback g a c s satisfaction =
     (if \<not> g_online g then Inl GraphError
      else if \<not> (list_ex (\<lambda>n. an_id n = a) (g_appointments g) \<and> c \<in> set (g_customers g) \<and>
                  has_staff_node g s) then Inr g
      else
        let marked = map (\<lambda>n. if an_id n = a then n\<lparr>an_satisfaction := Some satisfaction\<rparr> else n)
                       (g_appointments g)
        in if list_ex (\<lambda>r. ww_customer r = c \<and> ww_staff r = s) (g_worked_with g)
           then Inr (g\<lparr>g_appointments := marked,
                       g_worked_with :=
                         map (\<lambda>r. if ww_customer r = c \<and> ww_staff r = s
                                   then set_worked_with satisfaction r else r) (g_worked_with g)\<rparr>)
           else Inr (g\<lparr>g_appointments := marked,
                       g_worked_with := g_worked_with g @
                         [set_worked_with satisfaction
                            \<lparr>ww_customer = c, ww_staff = s,
                             ww_satisfaction = None, ww_count = None\<rparr>]\<rparr>))"

text \<open>
  \<^verbatim>\<open>create_appointment_node\<close>: needs the Customer, Staff and Service nodes, else no
  row and no change. \<^verbatim>\<open>CREATE\<close> of an Appointment node whose id is taken breaks the
  uniqueness constraint, and the query fails.
\<close>

definition create_appointment_node :: "graph \<Rightarrow> Appointment \<Rightarrow> error + graph" where
  "create_appointment_node g a =
     (if \<not> g_online g then Inl GraphError
      else if \<not> (customer_id a \<in> set (g_customers g) \<and> has_staff_node g (staff_id a) \<and>
                  has_service_node g (service_id a)) then Inr g
      else if list_ex (\<lambda>n. an_id n = appt_id a) (g_appointments g) then Inl GraphError
      else Inr (g\<lparr>g_appointments := g_appointments g @
                    [\<lparr>an_id = appt_id a, an_start_time = start_time a, an_end_time = end_time a,
                      an_status = status a, an_satisfaction = None\<rparr>],
                  g_booked := g_booked g @ [(customer_id a, appt_id a)],
                  g_assigned_to := g_assigned_to g @ [(appt_id a, staff_id a)],
                  g_for_service := g_for_service g @ [(appt_id a, service_id a)]\<rparr>))"


subsection \<open>Recommendation queries\<close>

text \<open>
  A Cypher query is read clause by clause as a list of rows. \<^verbatim>\<open>MATCH\<close> keeps, for
  each row, one row per way of matching the pattern; \<^verbatim>\<open>OPTIONAL MATCH\<close> does the
  same but keeps the row once, with nulls, when nothing matches (or when a node the
  pattern starts from is null).
\<close>

definition optional_match :: "'a list \<Rightarrow> 'a option list" where
  "optional_match ms = (if ms = [] then [None] else map Some ms)"

text \<open>
  \<^verbatim>\<open>(c)-[:PREFERS]->(s:Service)<-[:PREFERS]-(similar:Customer) WHERE similar.id <> c.id\<close>:
  the pairs (s, similar).
\<close>

definition similar_matches :: "graph \<Rightarrow> string \<Rightarrow> (string \<times> string) list" where
  "similar_matches g c =
     [(pe_service e1, pe_customer e2).
        e1 \<leftarrow> g_prefers g, pe_customer e1 = c, has_service_node g (pe_service e1),
        e2 \<leftarrow> g_prefers g, pe_service e2 = pe_service e1,
        pe_customer e2 \<in> set (g_customers g), pe_customer e2 \<noteq> c]"

text \<open>
  \<^verbatim>\<open>(similar)-[r:PREFERS]->(recommended:Service) WHERE NOT (c)-[:PREFERS]->(recommended)\<close>:
  the pairs (r, recommended).
\<close>

definition recommended_matches :: "graph \<Rightarrow> string \<Rightarrow> string \<Rightarrow> (prefers_edge \<times> service_node) list" where
  "recommended_matches g c similar =
     [(r, n).
        r \<leftarrow> g_prefers g, pe_customer r = similar,
        n \<leftarrow> g_services g, sn_id n = pe_service r, \<not> has_prefers g c (sn_id n)]"

text \<open>
  \<^verbatim>\<open>(c)-[:PREFERS]->(preferred:Service)-[:COMPLEMENTS]->(complement:Service)
  WHERE NOT (c)-[:PREFERS]->(complement)\<close>: the complement nodes.
\<close>

definition complement_matches :: "graph \<Rightarrow> string \<Rightarrow> service_node list" where
  "complement_matches g c =
     [n.
        e \<leftarrow> g_prefers g, pe_customer e = c, has_service_node g (pe_service e),
        k \<leftarrow> g_complements g, fst k = pe_service e,
        n \<leftarrow> g_services g, sn_id n = snd k, \<not> has_prefers g c (sn_id n)]"

text \<open>The rows before \<^verbatim>\<open>WITH\<close>: (similar, (r, recommended), complement).\<close>

type_synonym recommendation_row =
  "string option \<times> (prefers_edge \<times> service_node) option \<times> service_node option"

definition recommendation_rows :: "graph \<Rightarrow> string \<Rightarrow> recommendation_row list" where
  "recommendation_rows g cid =
     [(map_option snd sm, rm, cm).
        c \<leftarrow> g_customers g, c = cid,
        sm \<leftarrow> optional_match (similar_matches g c),
        rm \<leftarrow> (case sm of None \<Rightarrow> [None]
                | Some p \<Rightarrow> optional_match (recommended_matches g c (snd p))),
        cm \<leftarrow> optional_match (complement_matches g c)]"

text \<open>
  \<^verbatim>\<open>WITH recommended, complement, sum(r.strength), count(similar)\<close>: one row per
  distinct pair (recommended, complement), in the order the pairs first occur; the
  aggregates skip nulls.
\<close>

definition row_key :: "recommendation_row \<Rightarrow> service_node option \<times> service_node option" where
  "row_key row = (map_option snd (fst (snd row)), snd (snd row))"

fun row_strength :: "recommendation_row \<Rightarrow> real" where
  "row_strength (sim, Some (r, n), cm) = coalesce (pe_strength r) 0"
| "row_strength (sim, None, cm) = 0"

fun row_similar :: "recommendation_row \<Rightarrow> int" where
  "row_similar (Some sim, rm, cm) = 1"
| "row_similar (None, rm, cm) = 0"

definition group_rows ::
    "recommendation_row list \<Rightarrow> (service_node option \<times> service_node option \<times> real \<times> int) list" where
  "group_rows rows =
     map (\<lambda>k. (fst k, snd k,
               sum_list (map row_strength (filter (\<lambda>row. row_key row = k) rows)),
               sum_list (map row_similar (filter (\<lambda>row. row_key row = k) rows))))
       (remdups (map row_key rows))"

record service_recommendation =
  rec_service_name :: "string option"
  rec_description :: "string option"
  rec_price :: "real option"
  rec_duration :: "int option"
  rec_score :: real

text \<open>The \<^verbatim>\<open>RETURN\<close> clause; \<^verbatim>\<open>COALESCE(recommended.p, complement.p)\<close> for each property.\<close>

fun coalesce_node :: "service_node option \<Rightarrow> service_node option \<Rightarrow> service_node option" where
  "coalesce_node (Some n) complement = Some n"
| "coalesce_node None complement = complement"

definition return_row ::
    "service_node option \<times> service_node option \<times> real \<times> int \<Rightarrow> service_recommendation" where
  "return_row grp =
     (let n = coalesce_node (fst grp) (fst (snd grp))
      in \<lparr>rec_service_name = map_option sn_name n,
          rec_description = map_option sn_description n,
          rec_price = map_option sn_price n,
          rec_duration = map_option sn_duration n,
          rec_score = fst (snd (snd grp)) + of_int (snd (snd (snd grp)))\<rparr>)"

text \<open>
  \<^verbatim>\<open>get_service_recommendations\<close>. \<^verbatim>\<open>ORDER BY score DESC\<close> is a stable sort here
  (the store leaves the order of ties open); a negative \<^verbatim>\<open>LIMIT\<close> is an error.
\<close>

definition get_service_recommendations ::
    "graph \<Rightarrow> string \<Rightarrow> int \<Rightarrow> error + service_recommendation list" where
  "get_service_recommendations g cid limit =
     (if \<not> g_online g \<or> limit < 0 then Inl GraphError
      else Inr (take (nat limit)
                  (sort_key (\<lambda>r. - rec_score r)
                     (map return_row (group_rows (recommendation_rows g cid))))))"

record staff_recommendation =
  sr_name :: string
  sr_staff_id :: string
  sr_previous_satisfaction :: real
  sr_expertise_level :: real
  sr_total_score :: real

text \<open>
  The rows of \<^verbatim>\<open>get_staff_recommendations\<close> before \<^verbatim>\<open>RETURN\<close>:
  (staff, worked, specializes). A null \<^verbatim>\<open>$customer_id\<close> matches no Customer.
\<close>

definition staff_rows ::
    "graph \<Rightarrow> string \<Rightarrow> string option \<Rightarrow>
     (staff_node \<times> worked_with_edge option \<times> specializes_edge option) list" where
  "staff_rows g sid cid =
     [(stf, worked, specializes).
        s \<leftarrow> g_services g, sn_id s = sid,
        e \<leftarrow> g_specializes g, sp_service e = sn_id s,
        stf \<leftarrow> g_staff g, st_id stf = sp_staff e,
        worked \<leftarrow> optional_match
          [w. w \<leftarrow> g_worked_with g, Some (ww_customer w) = cid,
              ww_customer w \<in> set (g_customers g), ww_staff w = st_id stf],
        specializes \<leftarrow> optional_match
          [e2. e2 \<leftarrow> g_specializes g, sp_staff e2 = st_id stf, sp_service e2 = sn_id s]]"

fun previous_satisfaction :: "worked_with_edge option \<Rightarrow> real" where
  "previous_satisfaction None = 0"
| "previous_satisfaction (Some w) = coalesce (ww_satisfaction w) 0"

fun expertise_level :: "specializes_edge option \<Rightarrow> real" where
  "expertise_level None = 1"
| "expertise_level (Some e) = coalesce (sp_expertise_level e) 1"

definition return_staff_row ::
    "staff_node \<times> worked_with_edge option \<times> specializes_edge option \<Rightarrow> staff_recommendation" where
  "return_staff_row row =
     \<lparr>sr_name = st_name (fst row),
      sr_staff_id = st_id (fst row),
      sr_previous_satisfaction = previous_satisfaction (fst (snd row)),
      sr_expertise_level = expertise_level (snd (snd row)),
      sr_total_score = previous_satisfaction (fst (snd row)) + expertise_level (snd (snd row))\<rparr>"

definition get_staff_recommendations ::
    "graph \<Rightarrow> string \<Rightarrow> string option \<Rightarrow> error + staff_recommendation list" where
  "get_staff_recommendations g sid cid =
     (if \<not> g_online g then Inl GraphError
      else Inr (sort_key (\<lambda>r. - sr_total_score r) (map return_staff_row (staff_rows g sid cid))))"


section \<open>Booking (app/services/appointment_service.py)\<close>

text \<open>The service object holds a reference to the graph store, or \<^verbatim>\<open>None\<close>.\<close>

record system =
  db :: database
  graph_db :: "graph option"

definition active_status :: "Appointment \<Rightarrow> bool" where
  "active_status a = (status a = CONFIRMED \<or> status a = RESCHEDULED)"

text \<open>
  The \<^verbatim>\<open>or_(and_(...), and_(...))\<close> that the conflict queries of
  \<^verbatim>\<open>book_appointment\<close>, \<^verbatim>\<open>_find_available_staff\<close> and
  \<^verbatim>\<open>reschedule_appointment\<close> share.
\<close>

definition conflict_condition :: "datetime \<Rightarrow> datetime \<Rightarrow> Appointment \<Rightarrow> bool" where
  "conflict_condition start_dt end_dt a =
     ((start_time a \<le> start_dt \<and> end_time a > start_dt) \<or>
      (start_time a < end_dt \<and> end_time a \<ge> end_dt))"

definition booking_conflicts :: "database \<Rightarrow> string \<Rightarrow> datetime \<Rightarrow> datetime \<Rightarrow> Appointment list" where
  "booking_conflicts d stf start_dt end_dt =
     filter (\<lambda>a. staff_id a = stf \<and> active_status a \<and> conflict_condition start_dt end_dt a)
       (appointments d)"

definition reschedule_conflicts ::
    "database \<Rightarrow> string \<Rightarrow> string \<Rightarrow> datetime \<Rightarrow> datetime \<Rightarrow> Appointment list" where
  "reschedule_conflicts d stf appointment_id new_start new_end =
     filter (\<lambda>a. staff_id a = stf \<and> appt_id a \<noteq> appointment_id \<and> active_status a \<and>
                 conflict_condition new_start new_end a)
       (appointments d)"

fun find_staff_loop :: "database \<Rightarrow> Staff list \<Rightarrow> datetime \<Rightarrow> datetime \<Rightarrow> error + string option" where
  "find_staff_loop d [] start_dt end_dt = Inr None"
| "find_staff_loop d (s # rest) start_dt end_dt =
     (case scalar_one_or_none (booking_conflicts d (stf_id s) start_dt end_dt) of
        Inl e \<Rightarrow> Inl e
      | Inr None \<Rightarrow> Inr (Some (stf_id s))
      | Inr (Some c) \<Rightarrow> find_staff_loop d rest start_dt end_dt)"

definition find_available_staff ::
    "database \<Rightarrow> string \<Rightarrow> datetime \<Rightarrow> datetime \<Rightarrow> error + string option" where
  "find_available_staff d sid start_dt end_dt =
     find_staff_loop d (filter stf_is_active (staff d)) start_dt end_dt"

text \<open>
  \<^verbatim>\<open>session.add\<close> and \<^verbatim>\<open>session.commit\<close> of a new appointment row: the primary key
  must be new and the three foreign keys must name existing rows.
\<close>

definition commit_new :: "database \<Rightarrow> Appointment \<Rightarrow> error + database" where
  "commit_new d a =
     (if appt_id a \<in> set (map appt_id (appointments d)) \<or>
         customer_id a \<notin> set (map cust_id (customers d)) \<or>
         staff_id a \<notin> set (map stf_id (staff d)) \<or>
         service_id a \<notin> set (map svc_id (services d))
      then Inl IntegrityError
      else Inr (d\<lparr>appointments := appointments d @ [a]\<rparr>))"

text \<open>
  \<^verbatim>\<open>AppointmentResponse.model_validate\<close> (app/models/schemas.py): the response model
  inherits the \<^verbatim>\<open>end_time\<close> validator of \<^verbatim>\<open>AppointmentBase\<close>.
\<close>

definition model_validate :: "Appointment \<Rightarrow> error + Appointment" where
  "model_validate a =
     (if end_time a \<le> start_time a
      then Inl (ValidationError ''End time must be after start time'')
      else Inr a)"

text \<open>
  \<^verbatim>\<open>book_appointment\<close>. The two ISO strings arrive parsed; \<open>new_id\<close> is the UUID
  drawn for the row and \<open>now\<close> the clock at the commit. The result pairs the stores
  as the call leaves them with what the call returns or raises: the \<^verbatim>\<open>rollback\<close> of
  the \<^verbatim>\<open>except\<close> branch undoes nothing that was committed.
\<close>

definition book_appointment ::
    "system \<Rightarrow> string \<Rightarrow> string \<Rightarrow> datetime \<Rightarrow> datetime \<Rightarrow> string option \<Rightarrow> string option \<Rightarrow>
     string \<Rightarrow> datetime \<Rightarrow> system \<times> (error + Appointment)" where
  "book_appointment sys cid sid start_dt end_dt stf note new_id now =
     (case (get_customer (db sys) cid, get_service (db sys) sid) of
        (Some customer, Some service) \<Rightarrow>
          (case (if \<not> truthy stf then find_available_staff (db sys) sid start_dt end_dt
                 else Inr stf) of
             Inl e \<Rightarrow> (sys, Inl e)
           | Inr None \<Rightarrow> (sys, Inl (ValueError ''No staff available for this time slot''))
           | Inr (Some assigned) \<Rightarrow>
               if assigned = [] then (sys, Inl (ValueError ''No staff available for this time slot''))
               else
                 (case scalar_one_or_none (booking_conflicts (db sys) assigned start_dt end_dt) of
                    Inl e \<Rightarrow> (sys, Inl e)
                  | Inr (Some c) \<Rightarrow> (sys, Inl (ValueError ''Time slot is not available''))
                  | Inr None \<Rightarrow>
                      let appointment =
                            \<lparr>appt_id = new_id, customer_id = cid, staff_id = assigned,
                             service_id = sid, start_time = start_dt, end_time = end_dt,
                             status = CONFIRMED, appt_notes = note, cancellation_reason = None,
                             updated_at = now\<rparr>
                      in (case commit_new (db sys) appointment of
                            Inl e \<Rightarrow> (sys, Inl e)
                          | Inr d \<Rightarrow>
                              (case graph_db sys of
                                 None \<Rightarrow> (sys\<lparr>db := d\<rparr>, model_validate appointment)
                               | Some g \<Rightarrow>
                                   (case create_appointment_node g appointment of
                                      Inl e \<Rightarrow> (sys\<lparr>db := d\<rparr>, Inl e)
                                    | Inr g' \<Rightarrow>
                                        (sys\<lparr>db := d, graph_db := Some g'\<rparr>,
                                         model_validate appointment))))))
      | _ \<Rightarrow> (sys, Inl (ValueError ''Customer or service not found'')))"


section \<open>Lifecycle (app/services/appointment_service.py)\<close>

text \<open>The row that \<^verbatim>\<open>session.get\<close> returned is changed in place and committed.\<close>

fun update_row :: "string \<Rightarrow> (Appointment \<Rightarrow> Appointment) \<Rightarrow> Appointment list \<Rightarrow> Appointment list" where
  "update_row k f [] = []"
| "update_row k f (a # rest) =
     (if appt_id a = k then f a # rest else a # update_row k f rest)"

definition commit_update :: "system \<Rightarrow> string \<Rightarrow> (Appointment \<Rightarrow> Appointment) \<Rightarrow> system" where
  "commit_update sys k f = sys\<lparr>db := (db sys)\<lparr>appointments := update_row k f (appointments (db sys))\<rparr>\<rparr>"

text \<open>
  \<^verbatim>\<open>cancel_appointment\<close>. A cancellation inside the notice period only logs a
  warning, which is not modelled.
\<close>

definition cancel_appointment ::
    "system \<Rightarrow> string \<Rightarrow> string option \<Rightarrow> datetime \<Rightarrow> system \<times> (error + bool)" where
  "cancel_appointment sys appointment_id reason now =
     (case get_appointment (db sys) appointment_id of
        None \<Rightarrow> (sys, Inl (ValueError ''Appointment not found''))
      | Some appointment \<Rightarrow>
          (commit_update sys appointment_id
             (\<lambda>a. a\<lparr>status := CANCELLED, cancellation_reason := reason, updated_at := now\<rparr>),
           Inr True))"

definition reschedule_appointment ::
    "system \<Rightarrow> string \<Rightarrow> datetime \<Rightarrow> datetime \<Rightarrow> system \<times> (error + Appointment)" where
  "reschedule_appointment sys appointment_id new_start now =
     (case get_appointment (db sys) appointment_id of
        None \<Rightarrow> (sys, Inl (ValueError ''Appointment not found''))
      | Some appointment \<Rightarrow>
          (case get_service (db sys) (service_id appointment) of
             None \<Rightarrow> (sys, Inl AttributeError)
           | Some service \<Rightarrow>
               let new_end = new_start + timedelta_minutes (svc_duration service) in
               (case scalar_one_or_none
                       (reschedule_conflicts (db sys) (staff_id appointment) appointment_id
                          new_start new_end) of
                  Inl e \<Rightarrow> (sys, Inl e)
                | Inr (Some c) \<Rightarrow> (sys, Inl (ValueError ''New time slot is not available''))
                | Inr None \<Rightarrow>
                    let moved = (\<lambda>a. a\<lparr>start_time := new_start, end_time := new_end,
                                        status := RESCHEDULED, updated_at := now\<rparr>)
                    in (commit_update sys appointment_id moved,
                        model_validate (moved appointment)))))"

text \<open>\<^verbatim>\<open>f"{appointment.notes or ''}\nFeedback: {feedback}"\<close>.\<close>

definition feedback_notes :: "string option \<Rightarrow> string \<Rightarrow> string" where
  "feedback_notes old feedback =
     coalesce old [] @ CHR 0x0A # ''Feedback: '' @ feedback"

definition complete_appointment ::
    "system \<Rightarrow> string \<Rightarrow> real \<Rightarrow> string option \<Rightarrow> datetime \<Rightarrow> system \<times> (error + bool)" where
  "complete_appointment sys appointment_id satisfaction feedback now =
     (case get_appointment (db sys) appointment_id of
        None \<Rightarrow> (sys, Inl (ValueError ''Appointment not found''))
      | Some appointment \<Rightarrow>
          let sys' = commit_update sys appointment_id
                       (\<lambda>a. a\<lparr>status := COMPLETED, updated_at := now,
                               appt_notes := (if truthy feedback
                                              then Some (feedback_notes (appt_notes a) (coalesce feedback []))
                                              else appt_notes a)\<rparr>)
          in (case graph_db sys of
                None \<Rightarrow> (sys', Inr True)
              | Some g \<Rightarrow>
                  (case update_customer_preferences g (customer_id appointment)
                          (service_id appointment) satisfaction of
                     Inl e \<Rightarrow> (sys', Inl e)
                   | Inr g1 \<Rightarrow>
                       (case update_appointment_feedback g1 appointment_id
                               (customer_id appointment) (staff_id appointment) satisfaction of
                          Inl e \<Rightarrow> (sys'\<lparr>graph_db := Some g1\<rparr>, Inl e)
                        | Inr g2 \<Rightarrow> (sys'\<lparr>graph_db := Some g2\<rparr>, Inr True)))))"


section \<open>The properties, in the specification's words\<close>

text \<open>Two intervals overlap iff \<open>A.start < B.end\<close> and \<open>A.end > B.start\<close>.\<close>

definition overlap :: "Appointment \<Rightarrow> Appointment \<Rightarrow> bool" where
  "overlap A B = (start_time A < end_time B \<and> end_time A > start_time B)"

text \<open>
  The no-overlap invariant: no two confirmed or rescheduled appointments of one staff
  member overlap.
\<close>

definition clash :: "Appointment \<Rightarrow> Appointment \<Rightarrow> bool" where
  "clash A B = (active_status A \<and> active_status B \<and> staff_id A = staff_id B \<and> overlap A B)"

fun no_overlap :: "Appointment list \<Rightarrow> bool" where
  "no_overlap [] = True"
| "no_overlap (a # rest) = (list_all (\<lambda>b. \<not> clash a b) rest \<and> no_overlap rest)"

text \<open>The overlap test between a slot and an appointment.\<close>

definition slot_overlaps :: "TimeSlot \<Rightarrow> Appointment \<Rightarrow> bool" where
  "slot_overlaps slot a =
     (slot_start_time slot < end_time a \<and> slot_end_time slot > start_time a)"

text \<open>The terminal states of the lifecycle.\<close>

definition terminal :: "AppointmentStatus \<Rightarrow> bool" where
  "terminal s = (s = CANCELLED \<or> s = COMPLETED \<or> s = NO_SHOW)"

text \<open>
  The PREFERS relationship from a customer to a service (the first one, should there be
  several), and its strength and count, \<open>0\<close> when it or the property is missing.
\<close>

definition preference_edge :: "graph \<Rightarrow> string \<Rightarrow> string \<Rightarrow> prefers_edge option" where
  "preference_edge g c s = find (\<lambda>e. pe_customer e = c \<and> pe_service e = s) (g_prefers g)"

definition strength_of :: "graph \<Rightarrow> string \<Rightarrow> string \<Rightarrow> real" where
  "strength_of g c s =
     (case preference_edge g c s of None \<Rightarrow> 0 | Some e \<Rightarrow> coalesce (pe_strength e) 0)"

definition count_of :: "graph \<Rightarrow> string \<Rightarrow> string \<Rightarrow> int" where
  "count_of g c s =
     (case preference_edge g c s of None \<Rightarrow> 0 | Some e \<Rightarrow> coalesce (pe_count e) 0)"

text \<open>
  What a returned recommendation may be built from: a \<open>recommended\<close> node is a service
  the customer does not prefer and some other customer, who shares a preferred service
  with the customer, prefers; a \<open>complement\<close> node is a service the customer does not
  prefer and a preferred service of the customer complements.
\<close>

definition candidate_ok :: "graph \<Rightarrow> string \<Rightarrow> service_node option \<Rightarrow> service_node option \<Rightarrow> bool" where
  "candidate_ok g cid recommended complement \<longleftrightarrow>
     (\<forall>x. recommended = Some x \<longrightarrow>
        x \<in> set (g_services g) \<and> \<not> has_prefers g cid (sn_id x) \<and>
        (\<exists>sim s. sim \<noteq> cid \<and> has_prefers g cid s \<and> has_prefers g sim s \<and>
                 has_prefers g sim (sn_id x))) \<and>
     (\<forall>x. complement = Some x \<longrightarrow>
        x \<in> set (g_services g) \<and> \<not> has_prefers g cid (sn_id x) \<and>
        (\<exists>p. has_prefers g cid p \<and> (p, sn_id x) \<in> set (g_complements g)))"

text \<open>The graph with no node and no relationship.\<close>

definition empty_graph :: graph where
  "empty_graph =
     \<lparr>g_online = True, g_customers = [], g_staff = [], g_services = [], g_appointments = [],
      g_prefers = [], g_worked_with = [], g_specializes = [], g_complements = [],
      g_booked = [], g_assigned_to = [], g_for_service = []\<rparr>"


section \<open>Example data\<close>

text \<open>
  A small salon on day 0 of the calendar: one customer, two active staff members, a
  60-minute service \<open>A\<close> and a 120-minute service \<open>B\<close>. \<open>clock h m\<close> is the time
  \<open>h:m\<close> of that day.
\<close>

definition clock :: "int \<Rightarrow> int \<Rightarrow> datetime" where
  "clock h m = datetime_combine 0 (time_hm h m)"

definition ex_customer :: Customer where
  "ex_customer = \<lparr>cust_id = ''C1'', cust_name = ''Ann'', cust_is_active = True\<rparr>"

definition ex_staff :: "Staff list" where
  "ex_staff = [\<lparr>stf_id = ''S1'', stf_name = ''Sam'', stf_is_active = True\<rparr>,
               \<lparr>stf_id = ''S2'', stf_name = ''Sue'', stf_is_active = True\<rparr>]"

definition ex_services :: "Service list" where
  "ex_services = [\<lparr>svc_id = ''A'', svc_name = ''Swedish Massage'', svc_duration = 60, svc_is_active = True\<rparr>,
                  \<lparr>svc_id = ''B'', svc_name = ''Facial'', svc_duration = 120, svc_is_active = True\<rparr>]"

definition ex_appointment :: "string \<Rightarrow> string \<Rightarrow> string \<Rightarrow> datetime \<Rightarrow> datetime \<Rightarrow> AppointmentStatus \<Rightarrow> Appointment" where
  "ex_appointment k stf sid s e st =
     \<lparr>appt_id = k, customer_id = ''C1'', staff_id = stf, service_id = sid, start_time = s,
      end_time = e, status = st, appt_notes = None, cancellation_reason = None, updated_at = 0\<rparr>"

definition ex_db :: "Appointment list \<Rightarrow> database" where
  "ex_db appts = \<lparr>customers = [ex_customer], staff = ex_staff, services = ex_services,
                  appointments = appts\<rparr>"

definition ex_slot :: "datetime \<Rightarrow> datetime \<Rightarrow> TimeSlot" where
  "ex_slot s e = \<lparr>slot_start_time = s, slot_end_time = e, slot_available = True, slot_staff_id = None\<rparr>"

definition ex_system :: "Appointment list \<Rightarrow> graph option \<Rightarrow> system" where
  "ex_system appts g = \<lparr>db = ex_db appts, graph_db = g\<rparr>"

text \<open>A graph store that cannot be reached, and one that holds the salon.\<close>

definition ex_offline_graph :: graph where
  "ex_offline_graph =
     \<lparr>g_online = False, g_customers = [], g_staff = [], g_services = [], g_appointments = [],
      g_prefers = [], g_worked_with = [], g_specializes = [], g_complements = [],
      g_booked = [], g_assigned_to = [], g_for_service = []\<rparr>"

definition ex_graph :: "prefers_edge list \<Rightarrow> graph" where
  "ex_graph prefs =
     \<lparr>g_online = True, g_customers = [''C1'', ''C2''],
      g_staff = [\<lparr>st_id = ''S1'', st_name = ''Sam''\<rparr>, \<lparr>st_id = ''S2'', st_name = ''Sue''\<rparr>],
      g_services =
        [\<lparr>sn_id = ''A'', sn_name = ''Swedish Massage'', sn_description = ''Relaxing'',
          sn_price = 80, sn_duration = 60\<rparr>,
         \<lparr>sn_id = ''B'', sn_name = ''Facial'', sn_description = ''Hydrating'',
          sn_price = 120, sn_duration = 120\<rparr>,
         \<lparr>sn_id = ''C'', sn_name = ''Aromatherapy'', sn_description = ''Calming'',
          sn_price = 60, sn_duration = 45\<rparr>],
      g_appointments = [], g_prefers = prefs, g_worked_with = [],
      g_specializes = [\<lparr>sp_staff = ''S1'', sp_service = ''A'', sp_expertise_level = Some 3\<rparr>],
      g_complements = [(''A'', ''C''), (''C'', ''A'')],
      g_booked = [], g_assigned_to = [], g_for_service = []\<rparr>"

definition ex_prefers :: "prefers_edge list" where
  "ex_prefers =
     [\<lparr>pe_customer = ''C1'', pe_service = ''A'', pe_strength = Some 2, pe_count = Some 3\<rparr>,
      \<lparr>pe_customer = ''C2'', pe_service = ''A'', pe_strength = Some 1, pe_count = Some 1\<rparr>,
      \<lparr>pe_customer = ''C2'', pe_service = ''B'', pe_strength = Some 4, pe_count = Some 2\<rparr>]"

text \<open>A reachable graph store that holds the two Customer nodes and nothing else.\<close>

definition ex_graph_customers_only :: graph where
  "ex_graph_customers_only =
     \<lparr>g_online = True, g_customers = [''C1'', ''C2''], g_staff = [], g_services = [],
      g_appointments = [], g_prefers = [], g_worked_with = [], g_specializes = [],
      g_complements = [], g_booked = [], g_assigned_to = [], g_for_service = []\<rparr>"


section \<open>The slot generator\<close>

lemmas ex_defs = clock_def ex_customer_def ex_staff_def ex_services_def ex_appointment_def ex_db_def
  ex_slot_def datetime_combine_def time_hm_def timedelta_minutes_def func_date_def

lemma timedelta_minutes_add: "timedelta_minutes (a + b) = timedelta_minutes a + timedelta_minutes b"
  by (simp add: timedelta_minutes_def algebra_simps)

lemma timedelta_minutes_30_pos: "0 < timedelta_minutes 30"
  by (simp add: timedelta_minutes_def)

lemma generate_loop_nth:
  "i < length (generate_loop c e d) \<Longrightarrow>
   generate_loop c e d ! i =
     \<lparr>slot_start_time = c + timedelta_minutes (30 * int i),
      slot_end_time = c + timedelta_minutes (30 * int i) + timedelta_minutes d,
      slot_available = True, slot_staff_id = None\<rparr>"
proof (induction c e d arbitrary: i rule: generate_loop.induct)
  case (1 c e d)
  show ?case
  proof (cases "c + timedelta_minutes d \<le> e")
    case False
    with "1.prems" show ?thesis by (simp add: generate_loop.simps)
  next
    case True
    note fits = this
    show ?thesis
    proof (cases i)
      case 0
      with fits show ?thesis
        by (simp add: generate_loop.simps [of c e d] timedelta_minutes_def)
    next
      case (Suc j)
      from "1.prems" fits Suc
      have "j < length (generate_loop (c + timedelta_minutes 30) e d)"
        by (simp add: generate_loop.simps [of c e d])
      from "1.IH" [OF fits this] fits Suc show ?thesis
        by (simp add: generate_loop.simps [of c e d] timedelta_minutes_def algebra_simps)
    qed
  qed
qed

lemma generate_loop_end:
  "s \<in> set (generate_loop c e d) \<Longrightarrow> slot_end_time s \<le> e"
proof (induction c e d rule: generate_loop.induct)
  case (1 c e d)
  show ?case
  proof (cases "c + timedelta_minutes d \<le> e")
    case False
    with "1.prems" show ?thesis by (simp add: generate_loop.simps)
  next
    case True
    with "1.prems" "1.IH" show ?thesis
      by (auto simp: generate_loop.simps [of c e d])
  qed
qed

lemma generate_loop_complete:
  "c + timedelta_minutes (30 * int k) + timedelta_minutes d \<le> e \<Longrightarrow>
   k < length (generate_loop c e d)"
proof (induction k arbitrary: c)
  case 0
  then show ?case by (simp add: generate_loop.simps [of c e d] timedelta_minutes_def)
next
  case (Suc k)
  have pos: "0 \<le> timedelta_minutes (30 * int (Suc k))"
    by (simp add: timedelta_minutes_def)
  from Suc.prems pos have fits: "c + timedelta_minutes d \<le> e" by linarith
  from Suc.prems have "(c + timedelta_minutes 30) + timedelta_minutes (30 * int k) + timedelta_minutes d \<le> e"
    by (simp add: timedelta_minutes_def algebra_simps)
  from Suc.IH [OF this] fits show ?case
    by (simp add: generate_loop.simps [of c e d])
qed

text \<open>
  C7. The slots of \<^verbatim>\<open>_generate_time_slots\<close> for a date, an operating window from
  \<open>opening\<close> to \<open>closing\<close> and a duration of \<open>dur\<close> minutes are ordered by start
  time; the \<open>i\<close>-th slot starts \<open>30 * i\<close> minutes after the opening, ends \<open>dur\<close> minutes
  after it starts, and lies within the window (it does not start before the opening and
  does not end after the closing); and every start of that form whose slot fits in the
  window is generated. The generator is a function of its four arguments and touches
  no state.
\<close>

theorem generate_time_slots_correct:
  "sorted_wrt (\<lambda>a b. slot_start_time a < slot_start_time b) (generate_time_slots d opening closing dur) \<and>
   (\<forall>i < length (generate_time_slots d opening closing dur).
      slot_start_time (generate_time_slots d opening closing dur ! i)
        = datetime_combine d opening + timedelta_minutes (30 * int i) \<and>
      slot_end_time (generate_time_slots d opening closing dur ! i)
        = slot_start_time (generate_time_slots d opening closing dur ! i) + timedelta_minutes dur \<and>
      datetime_combine d opening \<le> slot_start_time (generate_time_slots d opening closing dur ! i) \<and>
      slot_end_time (generate_time_slots d opening closing dur ! i) \<le> datetime_combine d closing) \<and>
   (\<forall>k. datetime_combine d opening + timedelta_minutes (30 * int k) + timedelta_minutes dur
          \<le> datetime_combine d closing
        \<longrightarrow> k < length (generate_time_slots d opening closing dur))"
proof -
  let ?c = "datetime_combine d opening" and ?e = "datetime_combine d closing"
  let ?xs = "generate_loop ?c ?e dur"
  have nth: "\<And>i. i < length ?xs \<Longrightarrow> slot_start_time (?xs ! i) = ?c + timedelta_minutes (30 * int i)"
    and nth_end: "\<And>i. i < length ?xs \<Longrightarrow> slot_end_time (?xs ! i) = slot_start_time (?xs ! i) + timedelta_minutes dur"
    by (simp_all add: generate_loop_nth)
  have lower: "\<And>i. i < length ?xs \<Longrightarrow> ?c \<le> slot_start_time (?xs ! i)"
    by (simp add: nth timedelta_minutes_def)
  have upper: "\<And>i. i < length ?xs \<Longrightarrow> slot_end_time (?xs ! i) \<le> ?e"
    using generate_loop_end [of _ ?c ?e dur] nth_mem by blast
  have ordered: "sorted_wrt (\<lambda>a b. slot_start_time a < slot_start_time b) ?xs"
    unfolding sorted_wrt_iff_nth_less
    by (simp add: nth timedelta_minutes_def)
  from nth nth_end lower upper ordered generate_loop_complete [of ?c _ dur ?e]
  show ?thesis
    unfolding generate_time_slots_def by blast
qed

theorem generate_time_slots_correct_witness:
  "(2::nat) < length (generate_time_slots 0 (time_hm 9 0) (time_hm 11 0) 30) \<and>
   slot_start_time (generate_time_slots 0 (time_hm 9 0) (time_hm 11 0) 30 ! 2)
     = datetime_combine 0 (time_hm 10 0) \<and>
   slot_end_time (generate_time_slots 0 (time_hm 9 0) (time_hm 11 0) 30 ! 2)
     = datetime_combine 0 (time_hm 10 30)"
proof -
  have "datetime_combine 0 (time_hm 9 0) + timedelta_minutes (30 * int 2) + timedelta_minutes 30
          \<le> datetime_combine 0 (time_hm 11 0)"
    by (simp add: datetime_combine_def time_hm_def timedelta_minutes_def)
  with generate_time_slots_correct [of 0 "time_hm 9 0" "time_hm 11 0" 30]
  have len: "2 < length (generate_time_slots 0 (time_hm 9 0) (time_hm 11 0) 30)"
    by blast
  with generate_time_slots_correct [of 0 "time_hm 9 0" "time_hm 11 0" 30]
  show ?thesis
    by (simp add: datetime_combine_def time_hm_def timedelta_minutes_def)
qed



section \<open>Availability\<close>

lemma is_available_iff: "is_available slot appts \<longleftrightarrow> (\<forall>a \<in> set appts. \<not> slot_overlaps slot a)"
  by (induction appts) (auto simp: slot_overlaps_def)

lemma filter_available_slots_filter:
  "filter_available_slots slots appts = filter (\<lambda>slot. is_available slot appts) slots"
  by (induction slots) auto

lemma staff_slots_lookup:
  "staff_slots slots existing sts m k =
     (if k \<in> stf_id ` set sts
      then Some (filter_available_slots slots (filter (\<lambda>apt. staff_id apt = k) existing))
      else m k)"
  by (induction sts arbitrary: m) auto

lemma generate_time_slots_example: "generate_time_slots 0 (time_hm 9 0) (time_hm 17 0) 60 = 
  [ex_slot (clock 9 0) (clock 10 0), ex_slot (clock 9 30) (clock 10 30), ex_slot (clock 10 0) (clock 11 0),
   ex_slot (clock 10 30) (clock 11 30), ex_slot (clock 11 0) (clock 12 0), ex_slot (clock 11 30) (clock 12 30),
   ex_slot (clock 12 0) (clock 13 0), ex_slot (clock 12 30) (clock 13 30), ex_slot (clock 13 0) (clock 14 0),
   ex_slot (clock 13 30) (clock 14 30), ex_slot (clock 14 0) (clock 15 0), ex_slot (clock 14 30) (clock 15 30),
   ex_slot (clock 15 0) (clock 16 0), ex_slot (clock 15 30) (clock 16 30), ex_slot (clock 16 0) (clock 17 0)]"
  by (simp add: generate_time_slots_def generate_loop.simps ex_defs)

text \<open>
  C4 (as the code has it). With a staff member given, \<^verbatim>\<open>check_availability\<close>
  succeeds for an existing service, and a slot is in \<open>available_slots\<close> iff it is a
  generated slot that overlaps no confirmed or rescheduled appointment of that staff
  member that starts on that date and is for the requested service. Appointments of
  the staff member for other services are not looked at.
\<close>

theorem check_availability_staff:
  assumes "get_service dbs sid = Some service" and "s \<noteq> []"
  shows "\<exists>r. check_availability dbs d sid (Some s) duration = Inr r \<and>
    (\<forall>slot. slot \<in> set (available_slots r) \<longleftrightarrow>
       slot \<in> set (generate_time_slots d (time_hm 9 0) (time_hm 17 0)
                     (duration_or duration (svc_duration service))) \<and>
       (\<forall>a \<in> set (appointments dbs).
           staff_id a = s \<and> service_id a = sid \<and> func_date (start_time a) = d \<and>
           active_status a \<longrightarrow> \<not> slot_overlaps slot a))"
  using assms
  by (auto simp: check_availability_def Let_def filter_available_slots_filter is_available_iff
        existing_appointments_def active_status_def)

theorem check_availability_staff_witness:
  "get_service (ex_db [ex_appointment ''a1'' ''S1'' ''A'' (clock 10 0) (clock 11 0) CONFIRMED]) ''A''
     = Some (hd ex_services) \<and>
   (case check_availability (ex_db [ex_appointment ''a1'' ''S1'' ''A'' (clock 10 0) (clock 11 0) CONFIRMED])
           0 ''A'' (Some ''S1'') None of
      Inl e \<Rightarrow> False
    | Inr r \<Rightarrow> ex_slot (clock 9 0) (clock 10 0) \<in> set (available_slots r) \<and>
              ex_slot (clock 9 30) (clock 10 30) \<notin> set (available_slots r) \<and>
              ex_slot (clock 10 0) (clock 11 0) \<notin> set (available_slots r) \<and>
              ex_slot (clock 10 30) (clock 11 30) \<notin> set (available_slots r) \<and>
              ex_slot (clock 11 0) (clock 12 0) \<in> set (available_slots r))"
proof -
  let ?db = "ex_db [ex_appointment ''a1'' ''S1'' ''A'' (clock 10 0) (clock 11 0) CONFIRMED]"
  have svc: "get_service ?db ''A'' = Some (hd ex_services)"
    by (simp add: get_service_def ex_defs)
  have ne: "''S1'' \<noteq> []" by simp
  from check_availability_staff [OF svc ne, of 0 None]
  obtain r where r: "check_availability ?db 0 ''A'' (Some ''S1'') None = Inr r"
    and iff: "\<And>slot. slot \<in> set (available_slots r) \<longleftrightarrow>
       slot \<in> set (generate_time_slots 0 (time_hm 9 0) (time_hm 17 0)
                     (duration_or None (svc_duration (hd ex_services)))) \<and>
       (\<forall>a \<in> set (appointments ?db).
           staff_id a = ''S1'' \<and> service_id a = ''A'' \<and> func_date (start_time a) = 0 \<and>
           active_status a \<longrightarrow> \<not> slot_overlaps slot a)"
    by blast
  have dur: "duration_or None (svc_duration (hd ex_services)) = 60"
    by (simp add: ex_defs)
  have "ex_slot (clock 9 0) (clock 10 0) \<in> set (available_slots r)"
    and "ex_slot (clock 9 30) (clock 10 30) \<notin> set (available_slots r)"
    and "ex_slot (clock 10 0) (clock 11 0) \<notin> set (available_slots r)"
    and "ex_slot (clock 10 30) (clock 11 30) \<notin> set (available_slots r)"
    and "ex_slot (clock 11 0) (clock 12 0) \<in> set (available_slots r)"
    unfolding iff dur generate_time_slots_example
    by (simp_all add: slot_overlaps_def active_status_def ex_defs)
  with svc r show ?thesis by simp
qed

text \<open>
  C4 as stated fails: staff member S1 has a confirmed appointment from 10:00 to 11:00
  for service \<open>B\<close>; asked about service \<open>A\<close> and S1, the slot from 10:00 to 11:00 is
  reported available although it overlaps that appointment.
\<close>

theorem check_availability_other_service_counterexample:
  "(case check_availability (ex_db [ex_appointment ''a1'' ''S1'' ''B'' (clock 10 0) (clock 11 0) CONFIRMED])
           0 ''A'' (Some ''S1'') None of
      Inl e \<Rightarrow> False
    | Inr r \<Rightarrow> ex_slot (clock 10 0) (clock 11 0) \<in> set (available_slots r)) \<and>
   staff_id (ex_appointment ''a1'' ''S1'' ''B'' (clock 10 0) (clock 11 0) CONFIRMED) = ''S1'' \<and>
   func_date (start_time (ex_appointment ''a1'' ''S1'' ''B'' (clock 10 0) (clock 11 0) CONFIRMED)) = 0 \<and>
   status (ex_appointment ''a1'' ''S1'' ''B'' (clock 10 0) (clock 11 0) CONFIRMED) = CONFIRMED \<and>
   slot_overlaps (ex_slot (clock 10 0) (clock 11 0))
     (ex_appointment ''a1'' ''S1'' ''B'' (clock 10 0) (clock 11 0) CONFIRMED)"
  by (simp add: check_availability_def get_service_def existing_appointments_def
      generate_time_slots_def generate_loop.simps slot_overlaps_def ex_defs)

text \<open>
  C3 (as the code has it). With no staff member given, a slot is in \<open>available_slots\<close>
  iff it is a generated slot that overlaps no confirmed or rescheduled appointment for
  the requested service on that date, of any staff member; \<open>staff_availability\<close> maps
  every active staff member to the generated slots free of that member's own such
  appointments, and \<open>available_slots\<close> is contained in each of these lists.
\<close>

theorem check_availability_any_staff:
  assumes "get_service dbs sid = Some service" and "\<not> truthy stf"
  shows "\<exists>r. check_availability dbs d sid stf duration = Inr r \<and>
    (\<forall>slot. slot \<in> set (available_slots r) \<longleftrightarrow>
       slot \<in> set (generate_time_slots d (time_hm 9 0) (time_hm 17 0)
                     (duration_or duration (svc_duration service))) \<and>
       (\<forall>a \<in> set (appointments dbs).
           service_id a = sid \<and> func_date (start_time a) = d \<and>
           active_status a \<longrightarrow> \<not> slot_overlaps slot a)) \<and>
    (\<forall>st \<in> set (staff dbs). stf_is_active st \<longrightarrow>
       (\<exists>l. staff_availability r (stf_id st) = Some l \<and>
            set (available_slots r) \<subseteq> set l \<and>
            (\<forall>slot. slot \<in> set l \<longleftrightarrow>
               slot \<in> set (generate_time_slots d (time_hm 9 0) (time_hm 17 0)
                     (duration_or duration (svc_duration service))) \<and>
               (\<forall>a \<in> set (appointments dbs).
                  staff_id a = stf_id st \<and> service_id a = sid \<and> func_date (start_time a) = d \<and>
                  active_status a \<longrightarrow> \<not> slot_overlaps slot a))))"
  using assms
  by (auto simp: check_availability_def Let_def filter_available_slots_filter is_available_iff
        existing_appointments_def active_status_def staff_slots_lookup get_all_staff_def)

theorem check_availability_any_staff_witness:
  "get_service (ex_db [ex_appointment ''a1'' ''S1'' ''A'' (clock 10 0) (clock 11 0) CONFIRMED]) ''A''
     = Some (hd ex_services) \<and>
   \<not> truthy None \<and>
   (case check_availability (ex_db [ex_appointment ''a1'' ''S1'' ''A'' (clock 10 0) (clock 11 0) CONFIRMED])
           0 ''A'' None None of
      Inl e \<Rightarrow> False
    | Inr r \<Rightarrow> ex_slot (clock 9 0) (clock 10 0) \<in> set (available_slots r) \<and>
              ex_slot (clock 10 0) (clock 11 0) \<notin> set (available_slots r) \<and>
              (case staff_availability r ''S1'' of
                 None \<Rightarrow> False
               | Some l \<Rightarrow> ex_slot (clock 9 0) (clock 10 0) \<in> set l))"
proof -
  let ?db = "ex_db [ex_appointment ''a1'' ''S1'' ''A'' (clock 10 0) (clock 11 0) CONFIRMED]"
  have svc: "get_service ?db ''A'' = Some (hd ex_services)"
    by (simp add: get_service_def ex_defs)
  have no: "\<not> truthy None" by simp
  have s1: "hd ex_staff \<in> set (staff ?db)" "stf_is_active (hd ex_staff)" "stf_id (hd ex_staff) = ''S1''"
    by (simp_all add: ex_defs)
  from check_availability_any_staff [OF svc no, of 0 None]
  obtain r where r: "check_availability ?db 0 ''A'' None None = Inr r"
    and iff: "\<And>slot. slot \<in> set (available_slots r) \<longleftrightarrow>
       slot \<in> set (generate_time_slots 0 (time_hm 9 0) (time_hm 17 0)
                     (duration_or None (svc_duration (hd ex_services)))) \<and>
       (\<forall>a \<in> set (appointments ?db).
           service_id a = ''A'' \<and> func_date (start_time a) = 0 \<and>
           active_status a \<longrightarrow> \<not> slot_overlaps slot a)"
    and per: "\<forall>st \<in> set (staff ?db). stf_is_active st \<longrightarrow>
       (\<exists>l. staff_availability r (stf_id st) = Some l \<and>
            set (available_slots r) \<subseteq> set l \<and>
            (\<forall>slot. slot \<in> set l \<longleftrightarrow>
               slot \<in> set (generate_time_slots 0 (time_hm 9 0) (time_hm 17 0)
                     (duration_or None (svc_duration (hd ex_services)))) \<and>
               (\<forall>a \<in> set (appointments ?db).
                  staff_id a = stf_id st \<and> service_id a = ''A'' \<and> func_date (start_time a) = 0 \<and>
                  active_status a \<longrightarrow> \<not> slot_overlaps slot a)))"
    by blast
  have dur: "duration_or None (svc_duration (hd ex_services)) = 60"
    by (simp add: ex_defs)
  have a: "ex_slot (clock 9 0) (clock 10 0) \<in> set (available_slots r)"
    and b: "ex_slot (clock 10 0) (clock 11 0) \<notin> set (available_slots r)"
    unfolding iff dur generate_time_slots_example
    by (simp_all add: slot_overlaps_def active_status_def ex_defs)
  from per s1(1) s1(2)
  have "\<exists>l. staff_availability r (stf_id (hd ex_staff)) = Some l \<and> set (available_slots r) \<subseteq> set l"
    by blast
  with s1(3) a
  obtain l where "staff_availability r ''S1'' = Some l" "ex_slot (clock 9 0) (clock 10 0) \<in> set l"
    by auto
  with svc r a b show ?thesis by simp
qed

text \<open>
  C3 as stated fails: S1 is booked from 10:00 to 11:00 and S2 is free all day; the slot
  from 10:00 to 11:00 is in S2's list but not in \<open>available_slots\<close>.
\<close>

theorem check_availability_union_counterexample:
  "(case check_availability (ex_db [ex_appointment ''a1'' ''S1'' ''A'' (clock 10 0) (clock 11 0) CONFIRMED])
           0 ''A'' None None of
      Inl e \<Rightarrow> False
    | Inr r \<Rightarrow> ex_slot (clock 10 0) (clock 11 0) \<notin> set (available_slots r) \<and>
              (case staff_availability r ''S2'' of
                 None \<Rightarrow> False
               | Some l \<Rightarrow> ex_slot (clock 10 0) (clock 11 0) \<in> set l))"
  by (simp add: check_availability_def get_service_def existing_appointments_def get_all_staff_def
      generate_time_slots_def generate_loop.simps ex_defs)


section \<open>Booking\<close>

lemmas booking_defs = book_appointment_def get_customer_def get_service_def booking_conflicts_def
  conflict_condition_def active_status_def commit_new_def model_validate_def ex_system_def Let_def

text \<open>
  The conflict test against a requested interval \<open>[start_dt, end_dt)\<close> finds an
  appointment iff the two overlap and the appointment does not lie strictly inside the
  requested interval.
\<close>

lemma conflict_condition_iff:
  assumes "start_dt < end_dt" and "start_time a < end_time a"
  shows "conflict_condition start_dt end_dt a \<longleftrightarrow>
     (start_dt < end_time a \<and> end_dt > start_time a) \<and>
     \<not> (start_dt < start_time a \<and> end_time a < end_dt)"
  using assms by (auto simp: conflict_condition_def)

text \<open>
  C1. The commit-time check of \<^verbatim>\<open>book_appointment\<close> misses an existing appointment
  that lies strictly inside the requested interval. S1 has a confirmed appointment from
  10:00 to 11:00 and the invariant holds; booking S1 from 09:00 to 12:00 succeeds, and
  afterwards S1 has two confirmed appointments that overlap.
\<close>

theorem book_appointment_containing_interval:
  "no_overlap [ex_appointment ''a1'' ''S1'' ''A'' (clock 10 0) (clock 11 0) CONFIRMED] \<and>
   book_appointment
       (ex_system [ex_appointment ''a1'' ''S1'' ''A'' (clock 10 0) (clock 11 0) CONFIRMED] None)
       ''C1'' ''B'' (clock 9 0) (clock 12 0) (Some ''S1'') None ''a2'' 0
     = (ex_system [ex_appointment ''a1'' ''S1'' ''A'' (clock 10 0) (clock 11 0) CONFIRMED,
                   ex_appointment ''a2'' ''S1'' ''B'' (clock 9 0) (clock 12 0) CONFIRMED] None,
        Inr (ex_appointment ''a2'' ''S1'' ''B'' (clock 9 0) (clock 12 0) CONFIRMED)) \<and>
   \<not> no_overlap [ex_appointment ''a1'' ''S1'' ''A'' (clock 10 0) (clock 11 0) CONFIRMED,
                 ex_appointment ''a2'' ''S1'' ''B'' (clock 9 0) (clock 12 0) CONFIRMED]"
  by (simp add: booking_defs clash_def overlap_def ex_defs)

theorem book_appointment_containing_interval_witness:
  "clash (ex_appointment ''a1'' ''S1'' ''A'' (clock 10 0) (clock 11 0) CONFIRMED)
         (ex_appointment ''a2'' ''S1'' ''B'' (clock 9 0) (clock 12 0) CONFIRMED) \<and>
   snd (book_appointment
       (ex_system [ex_appointment ''a1'' ''S1'' ''A'' (clock 10 0) (clock 11 0) CONFIRMED] None)
       ''C1'' ''B'' (clock 9 0) (clock 12 0) (Some ''S1'') None ''a2'' 0)
     = Inr (ex_appointment ''a2'' ''S1'' ''B'' (clock 9 0) (clock 12 0) CONFIRMED)"
  using book_appointment_containing_interval by simp

text \<open>
  C5. \<^verbatim>\<open>book_appointment\<close> does not look at the order of the two times before it
  writes. A request from 10:00 to 09:00 for an existing customer, service and staff
  member is committed as a confirmed appointment; only then the response model's
  validator raises.
\<close>

theorem book_appointment_inverted_interval:
  "book_appointment (ex_system [] None)
       ''C1'' ''A'' (clock 10 0) (clock 9 0) (Some ''S1'') None ''a1'' 0
     = (ex_system [ex_appointment ''a1'' ''S1'' ''A'' (clock 10 0) (clock 9 0) CONFIRMED] None,
        Inl (ValidationError ''End time must be after start time''))"
  by (simp add: booking_defs ex_defs)

theorem book_appointment_inverted_interval_witness:
  "appointments (db (fst (book_appointment (ex_system [] None)
       ''C1'' ''A'' (clock 10 0) (clock 9 0) (Some ''S1'') None ''a1'' 0)))
     = [ex_appointment ''a1'' ''S1'' ''A'' (clock 10 0) (clock 9 0) CONFIRMED]"
  using book_appointment_inverted_interval by (simp add: ex_system_def ex_db_def)

text \<open>
  C2 (as the code has it). When the row of the new appointment has been committed and
  the write to the graph store then fails, \<^verbatim>\<open>book_appointment\<close> raises the graph
  store's error to its caller; the committed row stays, with status confirmed.
\<close>

theorem book_appointment_graph_failure:
  assumes "get_customer (db sys) cid = Some customer"
    and "get_service (db sys) sid = Some service"
    and "(if \<not> truthy stf then find_available_staff (db sys) sid start_dt end_dt else Inr stf)
           = Inr (Some assigned)"
    and "assigned \<noteq> []"
    and "booking_conflicts (db sys) assigned start_dt end_dt = []"
    and "appointment =
           \<lparr>appt_id = new_id, customer_id = cid, staff_id = assigned, service_id = sid,
            start_time = start_dt, end_time = end_dt, status = CONFIRMED, appt_notes = note,
            cancellation_reason = None, updated_at = now\<rparr>"
    and "commit_new (db sys) appointment = Inr d"
    and "graph_db sys = Some g"
    and "create_appointment_node g appointment = Inl e"
  shows "book_appointment sys cid sid start_dt end_dt stf note new_id now = (sys\<lparr>db := d\<rparr>, Inl e) \<and>
         appointments d = appointments (db sys) @ [appointment] \<and>
         status appointment = CONFIRMED"
proof -
  from assms(7) have d: "appointments d = appointments (db sys) @ [appointment]"
    by (auto simp: commit_new_def split: if_splits)
  from assms(6) have st: "status appointment = CONFIRMED" by simp
  from assms have "book_appointment sys cid sid start_dt end_dt stf note new_id now = (sys\<lparr>db := d\<rparr>, Inl e)"
    unfolding book_appointment_def by (simp add: Let_def)
  with d st show ?thesis by simp
qed

theorem book_appointment_graph_failure_witness:
  "get_customer (db (ex_system [] (Some ex_offline_graph))) ''C1'' = Some ex_customer \<and>
   get_service (db (ex_system [] (Some ex_offline_graph))) ''A'' = Some (hd ex_services) \<and>
   booking_conflicts (db (ex_system [] (Some ex_offline_graph))) ''S1'' (clock 10 0) (clock 11 0) = [] \<and>
   commit_new (db (ex_system [] (Some ex_offline_graph)))
       (ex_appointment ''a1'' ''S1'' ''A'' (clock 10 0) (clock 11 0) CONFIRMED)
     = Inr (ex_db [ex_appointment ''a1'' ''S1'' ''A'' (clock 10 0) (clock 11 0) CONFIRMED]) \<and>
   create_appointment_node ex_offline_graph
       (ex_appointment ''a1'' ''S1'' ''A'' (clock 10 0) (clock 11 0) CONFIRMED) = Inl GraphError \<and>
   book_appointment (ex_system [] (Some ex_offline_graph))
       ''C1'' ''A'' (clock 10 0) (clock 11 0) (Some ''S1'') None ''a1'' 0
     = (ex_system [ex_appointment ''a1'' ''S1'' ''A'' (clock 10 0) (clock 11 0) CONFIRMED]
          (Some ex_offline_graph),
        Inl GraphError)"
proof -
  let ?sys = "ex_system [] (Some ex_offline_graph)"
  let ?a = "ex_appointment ''a1'' ''S1'' ''A'' (clock 10 0) (clock 11 0) CONFIRMED"
  have c: "get_customer (db ?sys) ''C1'' = Some ex_customer"
    by (simp add: get_customer_def ex_system_def ex_db_def ex_customer_def)
  have s: "get_service (db ?sys) ''A'' = Some (hd ex_services)"
    by (simp add: get_service_def ex_system_def ex_db_def ex_services_def)
  have st: "(if \<not> truthy (Some ''S1'')
             then find_available_staff (db ?sys) ''A'' (clock 10 0) (clock 11 0)
             else Inr (Some ''S1'')) = Inr (Some ''S1'')"
    by simp
  have ne: "''S1'' \<noteq> []" by simp
  have nc: "booking_conflicts (db ?sys) ''S1'' (clock 10 0) (clock 11 0) = []"
    by (simp add: booking_conflicts_def ex_system_def ex_db_def)
  have a: "?a = \<lparr>appt_id = ''a1'', customer_id = ''C1'', staff_id = ''S1'', service_id = ''A'',
            start_time = clock 10 0, end_time = clock 11 0, status = CONFIRMED, appt_notes = None,
            cancellation_reason = None, updated_at = 0\<rparr>"
    by (simp add: ex_appointment_def)
  have cm: "commit_new (db ?sys) ?a = Inr (ex_db [?a])"
    by (simp add: commit_new_def ex_system_def ex_db_def ex_appointment_def ex_customer_def
        ex_staff_def ex_services_def)
  have g: "graph_db ?sys = Some ex_offline_graph"
    by (simp add: ex_system_def)
  have f: "create_appointment_node ex_offline_graph ?a = Inl GraphError"
    by (simp add: create_appointment_node_def ex_offline_graph_def)
  from book_appointment_graph_failure [OF c s st ne nc a cm g f]
  have "book_appointment ?sys ''C1'' ''A'' (clock 10 0) (clock 11 0) (Some ''S1'') None ''a1'' 0
          = (?sys\<lparr>db := ex_db [?a]\<rparr>, Inl GraphError)"
    by simp
  with c s nc cm f show ?thesis by (simp add: ex_system_def)
qed

text \<open>
  C2 as stated fails: with a graph store that cannot be reached, a booking that is
  committed does not return the appointment but raises the error of the graph write.
\<close>

theorem book_appointment_graph_failure_counterexample:
  "snd (book_appointment (ex_system [] (Some ex_offline_graph))
          ''C1'' ''A'' (clock 10 0) (clock 11 0) (Some ''S1'') None ''a1'' 0) = Inl GraphError \<and>
   appointments (db (fst (book_appointment (ex_system [] (Some ex_offline_graph))
          ''C1'' ''A'' (clock 10 0) (clock 11 0) (Some ''S1'') None ''a1'' 0)))
     = [ex_appointment ''a1'' ''S1'' ''A'' (clock 10 0) (clock 11 0) CONFIRMED]"
  by (simp add: booking_defs create_appointment_node_def ex_offline_graph_def ex_defs)


section \<open>Lifecycle\<close>

lemmas lifecycle_defs = get_appointment_def get_service_def reschedule_conflicts_def
  conflict_condition_def active_status_def model_validate_def commit_update_def ex_system_def Let_def

text \<open>
  C6. The conflict test of \<^verbatim>\<open>reschedule_appointment\<close> has the same gap as that of
  \<^verbatim>\<open>book_appointment\<close>. S1 has a confirmed appointment from 09:00 to 10:00; moving
  S1's other, 120-minute appointment to 08:30 succeeds, although 08:30 to 10:30 overlaps
  the first.
\<close>

theorem reschedule_appointment_containing_interval:
  "reschedule_appointment
       (ex_system [ex_appointment ''a1'' ''S1'' ''A'' (clock 9 0) (clock 10 0) CONFIRMED,
                   ex_appointment ''a2'' ''S1'' ''B'' (clock 13 0) (clock 15 0) CONFIRMED] None)
       ''a2'' (clock 8 30) 0
     = (ex_system [ex_appointment ''a1'' ''S1'' ''A'' (clock 9 0) (clock 10 0) CONFIRMED,
                   ex_appointment ''a2'' ''S1'' ''B'' (clock 8 30) (clock 10 30) RESCHEDULED] None,
        Inr (ex_appointment ''a2'' ''S1'' ''B'' (clock 8 30) (clock 10 30) RESCHEDULED)) \<and>
   overlap (ex_appointment ''a2'' ''S1'' ''B'' (clock 8 30) (clock 10 30) RESCHEDULED)
           (ex_appointment ''a1'' ''S1'' ''A'' (clock 9 0) (clock 10 0) CONFIRMED)"
  by (simp add: reschedule_appointment_def lifecycle_defs overlap_def ex_defs)

theorem reschedule_appointment_containing_interval_witness:
  "snd (reschedule_appointment
       (ex_system [ex_appointment ''a1'' ''S1'' ''A'' (clock 9 0) (clock 10 0) CONFIRMED,
                   ex_appointment ''a2'' ''S1'' ''B'' (clock 13 0) (clock 15 0) CONFIRMED] None)
       ''a2'' (clock 8 30) 0)
     = Inr (ex_appointment ''a2'' ''S1'' ''B'' (clock 8 30) (clock 10 30) RESCHEDULED)"
  using reschedule_appointment_containing_interval by simp

lemma find_update_row:
  "(\<And>a. appt_id (f a) = appt_id a) \<Longrightarrow>
   find (\<lambda>a. appt_id a = k) (update_row k f rows) = map_option f (find (\<lambda>a. appt_id a = k) rows)"
  by (induction rows) auto

lemma get_appointment_commit_update:
  "(\<And>a. appt_id (f a) = appt_id a) \<Longrightarrow>
   get_appointment (db (commit_update sys k f)) k = map_option f (get_appointment (db sys) k)"
  by (simp add: get_appointment_def commit_update_def find_update_row)

lemma db_cancel_appointment:
  "get_appointment (db sys) k = Some a \<Longrightarrow>
   db (fst (cancel_appointment sys k reason now)) =
   db (commit_update sys k (\<lambda>a. a\<lparr>status := CANCELLED, cancellation_reason := reason, updated_at := now\<rparr>))"
  by (simp add: cancel_appointment_def)

lemma db_complete_appointment:
  "get_appointment (db sys) k = Some a \<Longrightarrow>
   db (fst (complete_appointment sys k sat fb now)) =
   db (commit_update sys k
         (\<lambda>a. a\<lparr>status := COMPLETED, updated_at := now,
                 appt_notes := (if truthy fb
                                then Some (feedback_notes (appt_notes a) (coalesce fb []))
                                else appt_notes a)\<rparr>))"
  by (simp add: complete_appointment_def Let_def split: option.splits sum.splits)

lemma reschedule_appointment_success:
  assumes "get_appointment (db sys) k = Some a"
    and "snd (reschedule_appointment sys k new_start now) = Inr a'"
  obtains service where "get_service (db sys) (service_id a) = Some service"
    and "a' = a\<lparr>start_time := new_start,
              end_time := new_start + timedelta_minutes (svc_duration service),
              status := RESCHEDULED, updated_at := now\<rparr>"
    and "fst (reschedule_appointment sys k new_start now) =
        commit_update sys k (\<lambda>a. a\<lparr>start_time := new_start,
              end_time := new_start + timedelta_minutes (svc_duration service),
              status := RESCHEDULED, updated_at := now\<rparr>)"
  using assms
  by (auto simp: reschedule_appointment_def Let_def model_validate_def
           split: option.splits sum.splits if_splits)

text \<open>
  C10 (as the code has it). No lifecycle operation looks at the current status. On an
  existing appointment, whatever its status, \<^verbatim>\<open>cancel_appointment\<close> leaves it
  cancelled and \<^verbatim>\<open>complete_appointment\<close> leaves it completed, and a
  \<^verbatim>\<open>reschedule_appointment\<close> that returns an appointment leaves it rescheduled.
\<close>

theorem lifecycle_overwrites_status:
  assumes "get_appointment (db sys) k = Some a"
  shows "map_option status (get_appointment (db (fst (cancel_appointment sys k reason now))) k)
           = Some CANCELLED \<and>
         map_option status (get_appointment (db (fst (complete_appointment sys k sat fb now))) k)
           = Some COMPLETED \<and>
         (\<forall>a'. snd (reschedule_appointment sys k new_start now) = Inr a' \<longrightarrow>
               status a' = RESCHEDULED \<and>
               map_option status
                 (get_appointment (db (fst (reschedule_appointment sys k new_start now))) k)
                 = Some RESCHEDULED)"
proof (intro conjI allI impI)
  show "map_option status (get_appointment (db (fst (cancel_appointment sys k reason now))) k)
           = Some CANCELLED"
    using assms by (simp add: db_cancel_appointment get_appointment_commit_update)
  show "map_option status (get_appointment (db (fst (complete_appointment sys k sat fb now))) k)
           = Some COMPLETED"
    using assms by (simp add: db_complete_appointment [OF assms] get_appointment_commit_update)
next
  fix a' assume ok: "snd (reschedule_appointment sys k new_start now) = Inr a'"
  obtain service where "get_service (db sys) (service_id a) = Some service"
    and a': "a' = a\<lparr>start_time := new_start,
              end_time := new_start + timedelta_minutes (svc_duration service),
              status := RESCHEDULED, updated_at := now\<rparr>"
    and sys': "fst (reschedule_appointment sys k new_start now) =
        commit_update sys k (\<lambda>a. a\<lparr>start_time := new_start,
              end_time := new_start + timedelta_minutes (svc_duration service),
              status := RESCHEDULED, updated_at := now\<rparr>)"
    by (rule reschedule_appointment_success [OF assms ok])
  from a' show "status a' = RESCHEDULED" by simp
  from assms show "map_option status
                 (get_appointment (db (fst (reschedule_appointment sys k new_start now))) k)
                 = Some RESCHEDULED"
    unfolding sys' by (simp add: get_appointment_commit_update)
qed

theorem lifecycle_overwrites_status_witness:
  "get_appointment
     (db (ex_system [ex_appointment ''a1'' ''S1'' ''A'' (clock 10 0) (clock 11 0) COMPLETED] None)) ''a1''
     = Some (ex_appointment ''a1'' ''S1'' ''A'' (clock 10 0) (clock 11 0) COMPLETED) \<and>
   snd (reschedule_appointment
       (ex_system [ex_appointment ''a1'' ''S1'' ''A'' (clock 10 0) (clock 11 0) COMPLETED] None)
       ''a1'' (clock 12 0) 0)
     = Inr (ex_appointment ''a1'' ''S1'' ''A'' (clock 12 0) (clock 13 0) RESCHEDULED) \<and>
   map_option status (get_appointment (db (fst (reschedule_appointment
       (ex_system [ex_appointment ''a1'' ''S1'' ''A'' (clock 10 0) (clock 11 0) COMPLETED] None)
       ''a1'' (clock 12 0) 0))) ''a1'') = Some RESCHEDULED \<and>
   map_option status (get_appointment (db (fst (cancel_appointment
       (ex_system [ex_appointment ''a1'' ''S1'' ''A'' (clock 10 0) (clock 11 0) COMPLETED] None)
       ''a1'' None 0))) ''a1'') = Some CANCELLED"
proof -
  let ?sys = "ex_system [ex_appointment ''a1'' ''S1'' ''A'' (clock 10 0) (clock 11 0) COMPLETED] None"
  have g: "get_appointment (db ?sys) ''a1''
             = Some (ex_appointment ''a1'' ''S1'' ''A'' (clock 10 0) (clock 11 0) COMPLETED)"
    by (simp add: get_appointment_def ex_system_def ex_db_def ex_appointment_def)
  have r: "snd (reschedule_appointment ?sys ''a1'' (clock 12 0) 0)
             = Inr (ex_appointment ''a1'' ''S1'' ''A'' (clock 12 0) (clock 13 0) RESCHEDULED)"
    by (simp add: reschedule_appointment_def lifecycle_defs ex_defs)
  from lifecycle_overwrites_status [OF g, of None 0 1 None "clock 12 0"] r g
  show ?thesis by simp
qed

text \<open>
  C10 as stated fails: a completed appointment is cancelled by \<^verbatim>\<open>cancel_appointment\<close>,
  a cancelled one becomes rescheduled, and a no-show becomes completed.
\<close>

theorem lifecycle_leaves_terminal_counterexample:
  "terminal COMPLETED \<and>
   map_option status (get_appointment (db (fst (cancel_appointment
       (ex_system [ex_appointment ''a1'' ''S1'' ''A'' (clock 10 0) (clock 11 0) COMPLETED] None)
       ''a1'' None 0))) ''a1'') = Some CANCELLED \<and>
   terminal CANCELLED \<and>
   map_option status (get_appointment (db (fst (reschedule_appointment
       (ex_system [ex_appointment ''a1'' ''S1'' ''A'' (clock 10 0) (clock 11 0) CANCELLED] None)
       ''a1'' (clock 12 0) 0))) ''a1'') = Some RESCHEDULED \<and>
   terminal NO_SHOW \<and>
   map_option status (get_appointment (db (fst (complete_appointment
       (ex_system [ex_appointment ''a1'' ''S1'' ''A'' (clock 10 0) (clock 11 0) NO_SHOW] None)
       ''a1'' 1 None 0))) ''a1'') = Some COMPLETED"
  by (simp add: terminal_def cancel_appointment_def reschedule_appointment_def
      complete_appointment_def lifecycle_defs ex_defs)


section \<open>The preference graph\<close>

lemmas graph_defs = ex_graph_def ex_prefers_def has_prefers_def has_service_node_def has_staff_node_def

lemma set_preference_ends [simp]:
  "pe_customer (set_preference x r) = pe_customer r"
  "pe_service (set_preference x r) = pe_service r"
  by (simp_all add: set_preference_def)

lemma find_map_same:
  "(\<And>r. P (f r) = P r) \<Longrightarrow>
   find P (map (\<lambda>r. if P r then f r else r) xs) = map_option f (find P xs)"
  by (induction xs) auto

lemma find_map_other:
  "(\<And>r. P r \<Longrightarrow> \<not> Q r \<and> \<not> Q (f r)) \<Longrightarrow>
   find Q (map (\<lambda>r. if P r then f r else r) xs) = find Q xs"
  by (induction xs) auto

lemma find_append:
  "find P (xs @ ys) = (case find P xs of None \<Rightarrow> find P ys | Some x \<Rightarrow> Some x)"
  by (induction xs) auto

lemma has_prefers_find:
  "has_prefers g c s \<longleftrightarrow> preference_edge g c s \<noteq> None"
  by (auto simp: has_prefers_def preference_edge_def list_ex_iff find_None_iff)

lemma update_customer_preferences_online:
  assumes "g_online g" and "c \<in> set (g_customers g)" and "has_service_node g s"
  shows "\<exists>g1. update_customer_preferences g c s x = Inr g1 \<and> g_online g1 \<and>
     g_prefers g1 =
       (if has_prefers g c s
        then map (\<lambda>r. if pe_customer r = c \<and> pe_service r = s then set_preference x r else r)
               (g_prefers g)
        else g_prefers g @
               [\<lparr>pe_customer = c, pe_service = s, pe_strength = Some x, pe_count = Some 1\<rparr>])"
  using assms by (simp add: update_customer_preferences_def set_preference_def)

lemma update_appointment_feedback_online:
  assumes "g_online g"
  shows "\<exists>g2. update_appointment_feedback g k c s x = Inr g2 \<and> g_prefers g2 = g_prefers g"
  using assms by (simp add: update_appointment_feedback_def Let_def)

lemma preference_edge_after:
  assumes "g_prefers g1 =
       (if has_prefers g c s
        then map (\<lambda>r. if pe_customer r = c \<and> pe_service r = s then set_preference x r else r)
               (g_prefers g)
        else g_prefers g @
               [\<lparr>pe_customer = c, pe_service = s, pe_strength = Some x, pe_count = Some 1\<rparr>])"
  shows "preference_edge g1 c s =
           (case preference_edge g c s of
              None \<Rightarrow> Some \<lparr>pe_customer = c, pe_service = s, pe_strength = Some x, pe_count = Some 1\<rparr>
            | Some e \<Rightarrow> Some (set_preference x e))"
    and "(c', s') \<noteq> (c, s) \<Longrightarrow> preference_edge g1 c' s' = preference_edge g c' s'"
proof -
  show "preference_edge g1 c s =
           (case preference_edge g c s of
              None \<Rightarrow> Some \<lparr>pe_customer = c, pe_service = s, pe_strength = Some x, pe_count = Some 1\<rparr>
            | Some e \<Rightarrow> Some (set_preference x e))"
  proof (cases "has_prefers g c s")
    case True
    then obtain e where e: "preference_edge g c s = Some e"
      by (auto simp: has_prefers_find)
    have "find (\<lambda>e. pe_customer e = c \<and> pe_service e = s)
            (map (\<lambda>r. if pe_customer r = c \<and> pe_service r = s then set_preference x r else r)
               (g_prefers g))
          = map_option (set_preference x) (find (\<lambda>e. pe_customer e = c \<and> pe_service e = s) (g_prefers g))"
      by (rule find_map_same) simp
    with True e assms show ?thesis by (simp add: preference_edge_def)
  next
    case False
    then have "preference_edge g c s = None" by (simp add: has_prefers_find)
    with False assms show ?thesis by (simp add: preference_edge_def find_append)
  qed
next
  assume ne: "(c', s') \<noteq> (c, s)"
  show "preference_edge g1 c' s' = preference_edge g c' s'"
  proof (cases "has_prefers g c s")
    case True
    have "find (\<lambda>e. pe_customer e = c' \<and> pe_service e = s')
            (map (\<lambda>r. if pe_customer r = c \<and> pe_service r = s then set_preference x r else r)
               (g_prefers g))
          = find (\<lambda>e. pe_customer e = c' \<and> pe_service e = s') (g_prefers g)"
      by (rule find_map_other) (use ne in auto)
    with True assms show ?thesis by (simp add: preference_edge_def)
  next
    case False
    with assms ne show ?thesis
      by (auto simp: preference_edge_def find_append split: option.splits)
  qed
qed

lemma complete_appointment_graph:
  assumes "get_appointment (db sys) k = Some a" and "graph_db sys = Some g"
    and "update_customer_preferences g (customer_id a) (service_id a) x = Inr g1"
    and "update_appointment_feedback g1 k (customer_id a) (staff_id a) x = Inr g2"
  shows "graph_db (fst (complete_appointment sys k x fb now)) = Some g2"
    and "snd (complete_appointment sys k x fb now) = Inr True"
  using assms by (simp_all add: complete_appointment_def Let_def)

text \<open>
  C8 (as the code has it). Completing an existing appointment with satisfaction \<open>x\<close>,
  with the graph store attached and reachable and the Customer and Service nodes of the
  appointment in it:
  the call returns \<open>True\<close>; afterwards the customer has a PREFERS relationship to the
  service, its strength has grown by \<open>x\<close> and its count by one (a relationship that
  was absent is created with strength \<open>x\<close> and count \<open>1\<close>); every other PREFERS
  relationship is as before; and for \<open>x \<ge> 0\<close> no strength has decreased.
\<close>

theorem complete_appointment_preference:
  assumes "get_appointment (db sys) k = Some a"
    and "graph_db sys = Some g"
    and "g_online g"
    and "customer_id a \<in> set (g_customers g)"
    and "has_service_node g (service_id a)"
  shows "\<exists>g'. graph_db (fst (complete_appointment sys k x fb now)) = Some g' \<and>
     snd (complete_appointment sys k x fb now) = Inr True \<and>
     has_prefers g' (customer_id a) (service_id a) \<and>
     strength_of g' (customer_id a) (service_id a) = strength_of g (customer_id a) (service_id a) + x \<and>
     count_of g' (customer_id a) (service_id a) = count_of g (customer_id a) (service_id a) + 1 \<and>
     (\<not> has_prefers g (customer_id a) (service_id a) \<longrightarrow>
        preference_edge g' (customer_id a) (service_id a) =
          Some \<lparr>pe_customer = customer_id a, pe_service = service_id a,
                pe_strength = Some x, pe_count = Some 1\<rparr>) \<and>
     (\<forall>c' s'. (c', s') \<noteq> (customer_id a, service_id a) \<longrightarrow>
        preference_edge g' c' s' = preference_edge g c' s') \<and>
     (0 \<le> x \<longrightarrow> (\<forall>c' s'. strength_of g c' s' \<le> strength_of g' c' s'))"
proof -
  let ?c = "customer_id a" and ?s = "service_id a"
  from update_customer_preferences_online [OF assms(3,4,5), of x]
  obtain g1 where g1: "update_customer_preferences g ?c ?s x = Inr g1" and on1: "g_online g1"
    and p1: "g_prefers g1 =
       (if has_prefers g ?c ?s
        then map (\<lambda>r. if pe_customer r = ?c \<and> pe_service r = ?s then set_preference x r else r)
               (g_prefers g)
        else g_prefers g @
               [\<lparr>pe_customer = ?c, pe_service = ?s, pe_strength = Some x, pe_count = Some 1\<rparr>])"
    by (elim exE conjE)
  from update_appointment_feedback_online [OF on1, of k ?c "staff_id a" x]
  obtain g2 where g2: "update_appointment_feedback g1 k ?c (staff_id a) x = Inr g2"
    and p2: "g_prefers g2 = g_prefers g1"
    by (elim exE conjE)
  from p1 p2 have p: "g_prefers g2 =
       (if has_prefers g ?c ?s
        then map (\<lambda>r. if pe_customer r = ?c \<and> pe_service r = ?s then set_preference x r else r)
               (g_prefers g)
        else g_prefers g @
               [\<lparr>pe_customer = ?c, pe_service = ?s, pe_strength = Some x, pe_count = Some 1\<rparr>])"
    by simp
  note same = preference_edge_after(1) [OF p]
  note other = preference_edge_after(2) [OF p]
  have res: "graph_db (fst (complete_appointment sys k x fb now)) = Some g2"
    "snd (complete_appointment sys k x fb now) = Inr True"
    by (rule complete_appointment_graph [OF assms(1,2) g1 g2])+
  have has: "has_prefers g2 ?c ?s"
    by (simp add: has_prefers_find same split: option.splits)
  have str: "strength_of g2 ?c ?s = strength_of g ?c ?s + x"
    by (simp add: strength_of_def same set_preference_def split: option.splits)
  have cnt: "count_of g2 ?c ?s = count_of g ?c ?s + 1"
    by (simp add: count_of_def same set_preference_def split: option.splits)
  have new: "\<not> has_prefers g ?c ?s \<longrightarrow>
        preference_edge g2 ?c ?s =
          Some \<lparr>pe_customer = ?c, pe_service = ?s, pe_strength = Some x, pe_count = Some 1\<rparr>"
    by (simp add: has_prefers_find same)
  have oth: "\<forall>c' s'. (c', s') \<noteq> (?c, ?s) \<longrightarrow> preference_edge g2 c' s' = preference_edge g c' s'"
    using other by blast
  have mono: "0 \<le> x \<longrightarrow> (\<forall>c' s'. strength_of g c' s' \<le> strength_of g2 c' s')"
  proof (intro impI allI)
    fix c' s' assume x: "0 \<le> x"
    show "strength_of g c' s' \<le> strength_of g2 c' s'"
    proof (cases "(c', s') = (?c, ?s)")
      case True
      with str x show ?thesis by simp
    next
      case False
      from other [OF False] show ?thesis by (simp add: strength_of_def)
    qed
  qed
  from res has str cnt new oth mono show ?thesis by blast
qed

theorem complete_appointment_preference_witness:
  "get_appointment
     (db (ex_system [ex_appointment ''a1'' ''S1'' ''A'' (clock 10 0) (clock 11 0) CONFIRMED]
            (Some (ex_graph ex_prefers)))) ''a1''
     = Some (ex_appointment ''a1'' ''S1'' ''A'' (clock 10 0) (clock 11 0) CONFIRMED) \<and>
   g_online (ex_graph ex_prefers) \<and>
   ''C1'' \<in> set (g_customers (ex_graph ex_prefers)) \<and>
   has_service_node (ex_graph ex_prefers) ''A'' \<and>
   strength_of (ex_graph ex_prefers) ''C1'' ''A'' = 2 \<and>
   count_of (ex_graph ex_prefers) ''C1'' ''A'' = 3 \<and>
   (\<exists>g'. graph_db (fst (complete_appointment
              (ex_system [ex_appointment ''a1'' ''S1'' ''A'' (clock 10 0) (clock 11 0) CONFIRMED]
                 (Some (ex_graph ex_prefers))) ''a1'' (1 / 2) None 0)) = Some g' \<and>
         strength_of g' ''C1'' ''A'' = 5 / 2 \<and>
         count_of g' ''C1'' ''A'' = 4 \<and>
         strength_of g' ''C2'' ''B'' = 4)"
proof -
  let ?a = "ex_appointment ''a1'' ''S1'' ''A'' (clock 10 0) (clock 11 0) CONFIRMED"
  let ?g = "ex_graph ex_prefers"
  let ?sys = "ex_system [?a] (Some ?g)"
  have a: "get_appointment (db ?sys) ''a1'' = Some ?a"
    by (simp add: get_appointment_def ex_system_def ex_db_def ex_appointment_def)
  have g: "graph_db ?sys = Some ?g" by (simp add: ex_system_def)
  have on: "g_online ?g" by (simp add: ex_graph_def)
  have c: "customer_id ?a \<in> set (g_customers ?g)" by (simp add: ex_graph_def ex_appointment_def)
  have s: "has_service_node ?g (service_id ?a)" by (simp add: graph_defs ex_appointment_def)
  have ids: "customer_id ?a = ''C1''" "service_id ?a = ''A''" by (simp_all add: ex_appointment_def)
  have old: "strength_of ?g ''C1'' ''A'' = 2" "count_of ?g ''C1'' ''A'' = 3"
    "strength_of ?g ''C2'' ''B'' = 4" "preference_edge ?g ''C2'' ''B'' \<noteq> None"
    by (simp_all add: strength_of_def count_of_def preference_edge_def graph_defs)
  from complete_appointment_preference [OF a g on c s, of "1 / 2" None 0]
  obtain g' where g': "graph_db (fst (complete_appointment ?sys ''a1'' (1 / 2) None 0)) = Some g'"
    and str: "strength_of g' ''C1'' ''A'' = strength_of ?g ''C1'' ''A'' + 1 / 2"
    and cnt: "count_of g' ''C1'' ''A'' = count_of ?g ''C1'' ''A'' + 1"
    and oth: "\<forall>c' s'. (c', s') \<noteq> (''C1'', ''A'') \<longrightarrow> preference_edge g' c' s' = preference_edge ?g c' s'"
    unfolding ids by (elim exE conjE)
  from oth have "preference_edge g' ''C2'' ''B'' = preference_edge ?g ''C2'' ''B''" by simp
  then have "strength_of g' ''C2'' ''B'' = 4" using old(3) by (simp add: strength_of_def)
  with g' str cnt old a on c s ids show ?thesis by auto
qed


text \<open>
  C8 as stated fails: the update is made only where both \<^verbatim>\<open>MATCH\<close> clauses of
  \<^verbatim>\<open>update_customer_preferences\<close> find their node, and only with a graph store
  attached. With a store that holds the Customer node but no Service node, and with no
  store at all, completing the appointment with satisfaction \<open>1\<close> returns \<open>True\<close>
  and marks the row completed, and no PREFERS relationship is created: strength and
  count stay \<open>0\<close>.
\<close>

theorem complete_appointment_preference_counterexample:
  "complete_appointment
       (ex_system [ex_appointment ''a1'' ''S1'' ''A'' (clock 10 0) (clock 11 0) CONFIRMED]
          (Some ex_graph_customers_only)) ''a1'' 1 None 0
     = (ex_system [ex_appointment ''a1'' ''S1'' ''A'' (clock 10 0) (clock 11 0) COMPLETED]
          (Some ex_graph_customers_only),
        Inr True) \<and>
   \<not> has_prefers ex_graph_customers_only ''C1'' ''A'' \<and>
   strength_of ex_graph_customers_only ''C1'' ''A'' = 0 \<and>
   count_of ex_graph_customers_only ''C1'' ''A'' = 0 \<and>
   complete_appointment
       (ex_system [ex_appointment ''a1'' ''S1'' ''A'' (clock 10 0) (clock 11 0) CONFIRMED] None)
       ''a1'' 1 None 0
     = (ex_system [ex_appointment ''a1'' ''S1'' ''A'' (clock 10 0) (clock 11 0) COMPLETED] None,
        Inr True)"
  by (simp add: complete_appointment_def get_appointment_def commit_update_def
      update_customer_preferences_def update_appointment_feedback_def has_service_node_def
      has_staff_node_def has_prefers_def strength_of_def count_of_def preference_edge_def
      ex_graph_customers_only_def ex_system_def ex_db_def ex_appointment_def Let_def)


section \<open>Recommendations\<close>

lemma optional_match_Some [simp]: "Some x \<in> set (optional_match ms) \<longleftrightarrow> x \<in> set ms"
  by (auto simp: optional_match_def)

lemma similar_matchesD:
  "(s, sim) \<in> set (similar_matches g c) \<Longrightarrow>
   sim \<noteq> c \<and> has_prefers g c s \<and> has_prefers g sim s"
  by (auto simp: similar_matches_def has_prefers_def list_ex_iff split: if_splits)

lemma recommended_matchesD:
  "(r, n) \<in> set (recommended_matches g c sim) \<Longrightarrow>
   n \<in> set (g_services g) \<and> \<not> has_prefers g c (sn_id n) \<and> has_prefers g sim (sn_id n)"
  by (auto simp: recommended_matches_def has_prefers_def list_ex_iff split: if_splits)

lemma complement_matchesD:
  "n \<in> set (complement_matches g c) \<Longrightarrow>
   n \<in> set (g_services g) \<and> \<not> has_prefers g c (sn_id n) \<and>
   (\<exists>p. has_prefers g c p \<and> (p, sn_id n) \<in> set (g_complements g))"
  by (auto simp: complement_matches_def has_prefers_def list_ex_iff split: if_splits)

lemma recommendation_rows_sound:
  assumes "row \<in> set (recommendation_rows g cid)"
  shows "candidate_ok g cid (fst (row_key row)) (snd (row_key row))"
proof -
  from assms obtain sm rm cm where row: "row = (map_option snd sm, rm, cm)"
    and sm: "sm \<in> set (optional_match (similar_matches g cid))"
    and rm: "rm \<in> set (case sm of None \<Rightarrow> [None]
                | Some p \<Rightarrow> optional_match (recommended_matches g cid (snd p)))"
    and cm: "cm \<in> set (optional_match (complement_matches g cid))"
    by (auto simp: recommendation_rows_def split: if_splits)
  have rec: "\<exists>sim s. sim \<noteq> cid \<and> has_prefers g cid s \<and> has_prefers g sim s \<and>
                 has_prefers g sim (sn_id n) \<and> n \<in> set (g_services g) \<and>
                 \<not> has_prefers g cid (sn_id n)"
    if "rm = Some (r, n)" for r n
  proof (cases sm)
    case None
    with rm that show ?thesis by simp
  next
    case (Some p)
    obtain s sim where p: "p = (s, sim)" by (cases p)
    from sm Some p have "(s, sim) \<in> set (similar_matches g cid)" by simp
    note a = similar_matchesD [OF this]
    from rm Some p that have "(r, n) \<in> set (recommended_matches g cid sim)" by simp
    note b = recommended_matchesD [OF this]
    from a b show ?thesis by blast
  qed
  have comp: "n \<in> set (g_services g) \<and> \<not> has_prefers g cid (sn_id n) \<and>
       (\<exists>p. has_prefers g cid p \<and> (p, sn_id n) \<in> set (g_complements g))"
    if "cm = Some n" for n
    using cm that complement_matchesD [of n g cid] by simp
  have "fst (row_key row) = map_option snd rm" and "snd (row_key row) = cm"
    by (simp_all add: row row_key_def)
  moreover have "\<exists>r. rm = Some (r, x)" if "map_option snd rm = Some x" for x
    using that by (cases rm) auto
  ultimately show ?thesis
    unfolding candidate_ok_def
    using rec comp by (simp only:) blast
qed

lemma group_rows_key:
  "grp \<in> set (group_rows rows) \<Longrightarrow> \<exists>row \<in> set rows. row_key row = (fst grp, fst (snd grp))"
  by (auto simp: group_rows_def)

lemma get_service_recommendations_sound:
  assumes "get_service_recommendations g cid limit = Inr rs" and "r \<in> set rs"
  shows "\<exists>recommended complement similarity_score similar_customers.
           r = return_row (recommended, complement, similarity_score, similar_customers) \<and>
           candidate_ok g cid recommended complement"
proof -
  from assms have "r \<in> set (take (nat limit)
                  (sort_key (\<lambda>r. - rec_score r)
                     (map return_row (group_rows (recommendation_rows g cid)))))"
    by (auto simp: get_service_recommendations_def split: if_splits)
  then have "r \<in> set (map return_row (group_rows (recommendation_rows g cid)))"
    by (auto dest: in_set_takeD)
  then obtain grp where grp: "grp \<in> set (group_rows (recommendation_rows g cid))"
    and r: "r = return_row grp"
    by auto
  from group_rows_key [OF grp] obtain row where "row \<in> set (recommendation_rows g cid)"
    and key: "row_key row = (fst grp, fst (snd grp))"
    by blast
  from recommendation_rows_sound [OF this(1)] key
  have "candidate_ok g cid (fst grp) (fst (snd grp))" by simp
  moreover have "grp = (fst grp, fst (snd grp), fst (snd (snd grp)), snd (snd (snd grp)))"
    by simp
  ultimately show ?thesis using r by metis
qed

lemma get_staff_recommendations_sound:
  assumes "get_staff_recommendations g sid c = Inr ss" and "r \<in> set ss"
  shows "\<exists>e \<in> set (g_specializes g). sp_staff e = sr_staff_id r \<and> sp_service e = sid"
proof -
  from assms have "r \<in> set (map return_staff_row (staff_rows g sid c))"
    by (auto simp: get_staff_recommendations_def split: if_splits)
  then obtain row where row: "row \<in> set (staff_rows g sid c)" and r: "r = return_staff_row row"
    by auto
  from row have "\<exists>e \<in> set (g_specializes g). sp_staff e = st_id (fst row) \<and> sp_service e = sid"
    by (auto simp: staff_rows_def split: if_splits)
  with r show ?thesis by (simp add: return_staff_row_def)
qed

lemma no_customer_no_recommendations:
  "g_online g \<Longrightarrow> 0 \<le> limit \<Longrightarrow> cid \<notin> set (g_customers g) \<Longrightarrow>
   get_service_recommendations g cid limit = Inr []"
proof -
  assume a: "g_online g" "0 \<le> limit" "cid \<notin> set (g_customers g)"
  have "recommendation_rows g cid = []"
    using a(3) by (induction "g_customers g") (auto simp: recommendation_rows_def)
  with a show ?thesis by (simp add: get_service_recommendations_def group_rows_def)
qed

lemma ex_service_recommendations:
  "get_service_recommendations (ex_graph ex_prefers) ''C1'' 5 =
     Inr [\<lparr>rec_service_name = Some ''Facial'', rec_description = Some ''Hydrating'',
           rec_price = Some 120, rec_duration = Some 120, rec_score = 5\<rparr>]"
  by (simp add: get_service_recommendations_def recommendation_rows_def optional_match_def
      similar_matches_def recommended_matches_def complement_matches_def group_rows_def
      row_key_def return_row_def graph_defs)

lemma ex_staff_recommendations:
  "get_staff_recommendations (ex_graph ex_prefers) ''A'' (Some ''C1'') =
     Inr [\<lparr>sr_name = ''Sam'', sr_staff_id = ''S1'', sr_previous_satisfaction = 0,
           sr_expertise_level = 3, sr_total_score = 3\<rparr>]"
  by (simp add: get_staff_recommendations_def staff_rows_def optional_match_def
      return_staff_row_def graph_defs)

text \<open>
  C9. Every row \<^verbatim>\<open>get_service_recommendations\<close> returns is built from a recommended
  and a complement node (either may be null) that the customer has no PREFERS
  relationship to: the recommended one preferred by a similar customer, the complement
  one complementing a preferred service. Every row \<^verbatim>\<open>get_staff_recommendations\<close>
  returns is a staff member with a SPECIALIZES_IN relationship to the requested
  service. On the empty graph both return the empty list.
\<close>

theorem recommendations_sound:
  "(\<forall>rs. get_service_recommendations g cid limit = Inr rs \<longrightarrow>
      (\<forall>r \<in> set rs. \<exists>recommended complement similarity_score similar_customers.
           r = return_row (recommended, complement, similarity_score, similar_customers) \<and>
           candidate_ok g cid recommended complement)) \<and>
   (\<forall>ss. get_staff_recommendations g sid c = Inr ss \<longrightarrow>
      (\<forall>r \<in> set ss. \<exists>e \<in> set (g_specializes g). sp_staff e = sr_staff_id r \<and> sp_service e = sid)) \<and>
   (0 \<le> limit \<longrightarrow> get_service_recommendations empty_graph cid limit = Inr []) \<and>
   get_staff_recommendations empty_graph sid c = Inr []"
proof (intro conjI allI impI ballI)
  fix rs r assume "get_service_recommendations g cid limit = Inr rs" "r \<in> set rs"
  then show "\<exists>recommended complement similarity_score similar_customers.
           r = return_row (recommended, complement, similarity_score, similar_customers) \<and>
           candidate_ok g cid recommended complement"
    by (rule get_service_recommendations_sound)
next
  fix ss r assume "get_staff_recommendations g sid c = Inr ss" "r \<in> set ss"
  then show "\<exists>e \<in> set (g_specializes g). sp_staff e = sr_staff_id r \<and> sp_service e = sid"
    by (rule get_staff_recommendations_sound)
next
  assume "0 \<le> limit"
  then show "get_service_recommendations empty_graph cid limit = Inr []"
    by (simp add: no_customer_no_recommendations empty_graph_def)
next
  show "get_staff_recommendations empty_graph sid c = Inr []"
    by (simp add: get_staff_recommendations_def staff_rows_def empty_graph_def)
qed

theorem recommendations_sound_witness:
  "get_service_recommendations (ex_graph ex_prefers) ''C1'' 5 =
     Inr [\<lparr>rec_service_name = Some ''Facial'', rec_description = Some ''Hydrating'',
           rec_price = Some 120, rec_duration = Some 120, rec_score = 5\<rparr>] \<and>
   (\<exists>recommended complement similarity_score similar_customers.
       \<lparr>rec_service_name = Some ''Facial'', rec_description = Some ''Hydrating'',
        rec_price = Some 120, rec_duration = Some 120, rec_score = 5\<rparr>
         = return_row (recommended, complement, similarity_score, similar_customers) \<and>
       candidate_ok (ex_graph ex_prefers) ''C1'' recommended complement) \<and>
   get_staff_recommendations (ex_graph ex_prefers) ''A'' (Some ''C1'') =
     Inr [\<lparr>sr_name = ''Sam'', sr_staff_id = ''S1'', sr_previous_satisfaction = 0,
           sr_expertise_level = 3, sr_total_score = 3\<rparr>] \<and>
   (\<exists>e \<in> set (g_specializes (ex_graph ex_prefers)). sp_staff e = ''S1'' \<and> sp_service e = ''A'') \<and>
   get_service_recommendations empty_graph ''C1'' 5 = Inr [] \<and>
   get_staff_recommendations empty_graph ''A'' (Some ''C1'') = Inr []"
  using recommendations_sound [of "ex_graph ex_prefers" "''C1''" 5 "''A''" "Some ''C1''"]
  unfolding ex_service_recommendations ex_staff_recommendations
  by simp


end
